theory Spec2Isabelle
  imports Complex_Main
begin

section \<open>Response cache (cache.py)\<close>

text \<open>
  The cache directory holds one file per cache key, \<open>key.json\<close>. It is modelled as a map
  from the key to what \<open>json.load\<close> makes of the file. A file is either unusable
  (unreadable, not JSON, or not an object) or an object whose fields are read by \<open>get_cached_response\<close>: the
  \<open>timestamp\<close> field is \<open>None\<close> when the key is missing or \<open>datetime.fromisoformat\<close>
  rejects it, the \<open>response\<close> field is \<open>None\<close> when the key is missing.

  Instants are integers counting microseconds (the resolution of \<open>datetime\<close>);
  \<open>datetime.now()\<close> is the parameter \<open>now\<close>, read once by each call, so a store and the
  lookup after it have a clock reading each. \<open>hashlib.sha256(...).hexdigest()\<close> is the parameter
  \<open>sha256\<close>, a function from strings to strings. Whether the file system lets a write or
  a delete go through is a parameter as well (\<open>write_ok\<close>, \<open>unlink_ok\<close>): both functions
  swallow the exception of a failed operation.
\<close>

record cache_data =
  cd_timestamp :: "int option"
  cd_model :: string
  cd_response :: "string option"

datatype cache_file = Unparseable | Json cache_data

type_synonym cache_dir = "string \<rightharpoonup> cache_file"

text \<open>\<open>system_prompt or ''\<close>: \<open>None\<close> and the empty string both give the empty string.\<close>

definition or_empty :: "string option \<Rightarrow> string" where
  "or_empty system_prompt = (case system_prompt of None \<Rightarrow> [] | Some s \<Rightarrow> s)"

text \<open>The f-string \<open>f"{model}:{system_prompt or ''}:{prompt}"\<close>.\<close>

definition cache_key_content :: "string \<Rightarrow> string \<Rightarrow> string option \<Rightarrow> string" where
  "cache_key_content model prompt system_prompt =
     model @ '':'' @ or_empty system_prompt @ '':'' @ prompt"

definition get_cache_key ::
  "(string \<Rightarrow> string) \<Rightarrow> string \<Rightarrow> string \<Rightarrow> string option \<Rightarrow> string" where
  "get_cache_key sha256 model prompt system_prompt =
     sha256 (cache_key_content model prompt system_prompt)"

text \<open>
  \<open>timedelta(hours=ttl_hours)\<close> in microseconds. A \<open>timedelta\<close> holds at most 999999999
  days in either direction; beyond that the constructor raises \<open>OverflowError\<close>, which is
  the value \<open>None\<close> here. The days of \<open>ttl_hours\<close> hours are \<open>ttl_hours // 24\<close>, rounded
  down.
\<close>

definition timedelta_hours :: "int \<Rightarrow> int option" where
  "timedelta_hours ttl_hours =
     (if - 999999999 \<le> ttl_hours div 24 \<and> ttl_hours div 24 \<le> 999999999
      then Some (ttl_hours * 3600000000)
      else None)"

text \<open>
  \<open>get_cached_response\<close> returns the response (or \<open>None\<close>) and the directory it leaves
  behind. Everything after the existence test runs inside \<open>try\<close>, and any exception gives
  \<open>None\<close>: an unusable file, a missing field, a \<open>timedelta\<close> out of range (the file
  stays), a failed unlink of an expired entry (the file stays).
\<close>

definition get_cached_response ::
  "(string \<Rightarrow> string) \<Rightarrow> cache_dir \<Rightarrow> int \<Rightarrow> bool \<Rightarrow>
   string \<Rightarrow> string \<Rightarrow> string option \<Rightarrow> int \<Rightarrow> string option \<times> cache_dir" where
  "get_cached_response sha256 dir now unlink_ok model prompt system_prompt ttl_hours =
     (let cache_key = get_cache_key sha256 model prompt system_prompt in
      case dir cache_key of
        None \<Rightarrow> (None, dir)
      | Some Unparseable \<Rightarrow> (None, dir)
      | Some (Json cache_data) \<Rightarrow>
          (case cd_timestamp cache_data of
             None \<Rightarrow> (None, dir)
           | Some cached_at \<Rightarrow>
               (case timedelta_hours ttl_hours of
                  None \<Rightarrow> (None, dir)
                | Some ttl \<Rightarrow>
                    if now - cached_at > ttl
                    then (None, if unlink_ok then dir(cache_key := None) else dir)
                    else (cd_response cache_data, dir))))"

text \<open>
  \<open>cache_response\<close> writes a temporary file and renames it over \<open>key.json\<close>. When either
  step fails the exception is swallowed and the directory is as before (the temporary
  file has the suffix \<open>.tmp\<close> and is never read).
\<close>

definition cache_response ::
  "(string \<Rightarrow> string) \<Rightarrow> cache_dir \<Rightarrow> int \<Rightarrow> bool \<Rightarrow>
   string \<Rightarrow> string \<Rightarrow> string \<Rightarrow> string option \<Rightarrow> cache_dir" where
  "cache_response sha256 dir now write_ok model prompt response system_prompt =
     (let cache_key = get_cache_key sha256 model prompt system_prompt;
          cache_data = \<lparr>cd_timestamp = Some now, cd_model = model, cd_response = Some response\<rparr>
      in if write_ok then dir(cache_key \<mapsto> Json cache_data) else dir)"

section \<open>Model names (models.py)\<close>

datatype error =
    UnknownModel | NoPricingData | InvalidCachedRatio | KeyError
  | OverflowError | ZeroDivisionError | CannotConvertNaN

definition OPENAI_MODELS :: "string \<rightharpoonup> string" where
  "OPENAI_MODELS = map_of
     [(''gpt-5.2-chat-latest'', ''gpt-5.2-chat-latest''),
      (''gpt-5.2'', ''gpt-5.2''),
      (''gpt-5.2-pro'', ''gpt-5.2-pro''),
      (''gpt-4o'', ''gpt-4o''),
      (''gpt-4'', ''gpt-4'')]"

definition OPENAI_ALIASES :: "string \<rightharpoonup> string" where
  "OPENAI_ALIASES = map_of
     [(''gpt'', ''gpt-5.2''),
      (''gpt-5'', ''gpt-5.2''),
      (''gpt-instant'', ''gpt-5.2-chat-latest''),
      (''gpt-5.2-instant'', ''gpt-5.2-chat-latest'')]"

definition GEMINI_MODELS :: "string \<rightharpoonup> string" where
  "GEMINI_MODELS = map_of
     [(''gemini-3-flash-preview'', ''gemini-3-flash-preview''),
      (''gemini-2.0-flash-exp'', ''gemini-2.0-flash-exp''),
      (''gemini-pro'', ''gemini-pro'')]"

definition GEMINI_ALIASES :: "string \<rightharpoonup> string" where
  "GEMINI_ALIASES = map_of [(''gemini'', ''gemini-3-flash-preview'')]"

definition CLAUDE_MODELS :: "string \<rightharpoonup> string" where
  "CLAUDE_MODELS = map_of
     [(''claude-sonnet-4-5-20250929'', ''claude-sonnet-4-5-20250929''),
      (''claude-3-5-sonnet-20241022'', ''claude-3-5-sonnet-20241022''),
      (''claude-3-opus-20240229'', ''claude-3-opus-20240229''),
      (''claude-3-haiku-20240307'', ''claude-3-haiku-20240307'')]"

definition CLAUDE_ALIASES :: "string \<rightharpoonup> string" where
  "CLAUDE_ALIASES = map_of [(''claude'', ''claude-sonnet-4-5-20250929'')]"

text \<open>\<open>d[k]\<close> on a dictionary: a missing key raises \<open>KeyError\<close>.\<close>

definition subscript :: "(string \<rightharpoonup> 'v) \<Rightarrow> string \<Rightarrow> error + 'v" where
  "subscript d k = (case d k of None \<Rightarrow> Inl KeyError | Some v \<Rightarrow> Inr v)"

text \<open>\<open>models[aliases[model]]\<close>, reached only when \<open>model in aliases\<close>.\<close>

definition via_alias ::
  "string \<Rightarrow> (string \<rightharpoonup> string) \<Rightarrow> (string \<rightharpoonup> string) \<Rightarrow> string \<Rightarrow> error + string \<times> string" where
  "via_alias provider models aliases model =
     (case subscript aliases model of
        Inl e \<Rightarrow> Inl e
      | Inr target \<Rightarrow>
          (case subscript models target of
             Inl e \<Rightarrow> Inl e
           | Inr api_model \<Rightarrow> Inr (provider, api_model)))"

definition normalize_model_name :: "string \<Rightarrow> error + string \<times> string" where
  "normalize_model_name model =
     (case OPENAI_MODELS model of
        Some api_model \<Rightarrow> Inr (''openai'', api_model)
      | None \<Rightarrow>
     if OPENAI_ALIASES model \<noteq> None then via_alias ''openai'' OPENAI_MODELS OPENAI_ALIASES model
     else
     (case GEMINI_MODELS model of
        Some api_model \<Rightarrow> Inr (''google'', api_model)
      | None \<Rightarrow>
     if GEMINI_ALIASES model \<noteq> None then via_alias ''google'' GEMINI_MODELS GEMINI_ALIASES model
     else
     (case CLAUDE_MODELS model of
        Some api_model \<Rightarrow> Inr (''anthropic'', api_model)
      | None \<Rightarrow>
     if CLAUDE_ALIASES model \<noteq> None then via_alias ''anthropic'' CLAUDE_MODELS CLAUDE_ALIASES model
     else Inl UnknownModel)))"

section \<open>Pricing store (pricing.py)\<close>

text \<open>
  A price entry is the dictionary \<open>{"input": ..., "output": ...}\<close> of one model, kept as
  the list of its items (the empty list is the empty dictionary, which \<open>not pricing\<close>
  tests for). A provider section maps model ids to entries, and a pricing table maps
  provider names to sections.
  A price is kept as the number written in the table; the floats that the code computes
  with are the subject of the floating-point section further down. Beside the provider
  sections the table of the code has a section \<open>_metadata\<close> (time of the last update,
  version, source). It is not a provider section, no lookup of a provider reads it, and it
  is left out of \<open>DEFAULT_PRICING\<close>; its presence is what makes a file usable.

  The override file \<open>pricing.yaml\<close> is either absent, unusable (unreadable, empty, or
  without the \<open>_metadata\<close> marker) or loaded with its provider sections.
\<close>

type_synonym price_entry = "(string \<times> real) list"

type_synonym pricing_table = "string \<rightharpoonup> (string \<rightharpoonup> price_entry)"

datatype pricing_file = Absent | Unusable | Loaded pricing_table

definition price :: "real \<Rightarrow> real \<Rightarrow> price_entry" where
  "price i out = [(''input'', i), (''output'', out)]"

definition DEFAULT_PRICING :: pricing_table where
  "DEFAULT_PRICING = map_of
     [(''openai'', map_of
         [(''gpt-5.2-chat-latest'', price 0.40 1.60),
          (''gpt-5.2'', price 1.75 14.00),
          (''gpt-5.2-pro'', price 21.00 84.00),
          (''gpt-4o'', price 2.50 10.00),
          (''gpt-4'', price 30.00 60.00)]),
      (''google'', map_of
         [(''gemini-3-flash-preview'', price 0.075 0.30),
          (''gemini-2.0-flash-exp'', price 0.075 0.30),
          (''gemini-pro'', price 0.50 1.50)]),
      (''anthropic'', map_of
         [(''claude-sonnet-4-5-20250929'', price 3.00 15.00),
          (''claude-3-5-sonnet-20241022'', price 3.00 15.00),
          (''claude-3-opus-20240229'', price 15.00 75.00),
          (''claude-3-haiku-20240307'', price 0.25 1.25)])]"

text \<open>
  \<open>load_pricing\<close> returns the file's table when the file is usable and the embedded
  defaults otherwise. In the second case it also writes the defaults to the file
  (\<open>save_pricing\<close>); that write does not change the table returned, and no function below
  reads the file twice, so the file after the call is not part of the result.
\<close>

definition load_pricing :: "pricing_file \<Rightarrow> pricing_table" where
  "load_pricing yaml = (case yaml of Loaded pricing \<Rightarrow> pricing | _ \<Rightarrow> DEFAULT_PRICING)"

definition get_model_pricing :: "pricing_file \<Rightarrow> string \<Rightarrow> string \<Rightarrow> price_entry option" where
  "get_model_pricing yaml provider model =
     (let pricing = load_pricing yaml;
          provider_pricing = (case pricing provider of None \<Rightarrow> Map.empty | Some s \<Rightarrow> s)
      in case provider_pricing model of
           Some entry \<Rightarrow> Some entry
         | None \<Rightarrow>
             if provider = ''openai'' then provider_pricing ''gpt-5.2''
             else if provider = ''google'' then provider_pricing ''gemini-3-flash-preview''
             else if provider = ''anthropic'' then provider_pricing ''claude-sonnet-4-5-20250929''
             else None)"

section \<open>Cost estimator (costs.py)\<close>

definition CACHE_DISCOUNTS :: "string \<rightharpoonup> real" where
  "CACHE_DISCOUNTS = map_of [(''openai'', 0.90), (''google'', 0.75), (''anthropic'', 0.90)]"

definition CHARS_PER_TOKEN :: int where
  "CHARS_PER_TOKEN = 4"

definition estimate_tokens :: "string \<Rightarrow> int" where
  "estimate_tokens text =
     (if text = [] then 0 else max 1 (int (length text) div CHARS_PER_TOKEN))"

text \<open>\<open>d.get(k, default)\<close>.\<close>

definition get_or :: "(string \<rightharpoonup> 'v) \<Rightarrow> string \<Rightarrow> 'v \<Rightarrow> 'v" where
  "get_or d k dflt = (case d k of None \<Rightarrow> dflt | Some v \<Rightarrow> v)"

text \<open>
  \<open>estimate_cost\<close>. A failure of \<open>normalize_model_name\<close> is raised again as a
  \<open>ValueError\<close>; \<open>not pricing\<close> holds for \<open>None\<close> and for the empty dictionary.
\<close>

definition estimate_cost :: "pricing_file \<Rightarrow> string \<Rightarrow> int \<Rightarrow> int \<Rightarrow> int \<Rightarrow> error + real" where
  "estimate_cost yaml model input_tokens output_tokens cached_tokens =
     (case normalize_model_name model of
        Inl e \<Rightarrow> Inl e
      | Inr (provider, api_model) \<Rightarrow>
          (case get_model_pricing yaml provider api_model of
             None \<Rightarrow> Inl NoPricingData
           | Some pricing \<Rightarrow>
               if pricing = [] then Inl NoPricingData
               else
                 let cached_tokens = max 0 (min cached_tokens input_tokens);
                     uncached_tokens = input_tokens - cached_tokens;
                     input_cost = (real_of_int uncached_tokens / 1000000) * get_or (map_of pricing) ''input'' 0;
                     cache_discount = get_or CACHE_DISCOUNTS provider 0.90;
                     cached_price = get_or (map_of pricing) ''input'' 0 * (1 - cache_discount);
                     cached_cost = (real_of_int cached_tokens / 1000000) * cached_price;
                     output_cost = (real_of_int output_tokens / 1000000) * get_or (map_of pricing) ''output'' 0;
                     total_cost = input_cost + cached_cost + output_cost
                 in Inr total_cost))"

text \<open>\<open>int(x)\<close> on a float truncates towards zero.\<close>

definition int_of_float :: "real \<Rightarrow> int" where
  "int_of_float x = (if 0 \<le> x then \<lfloor>x\<rfloor> else \<lceil>x\<rceil>)"

text \<open>\<open>str.lower()\<close> on ASCII letters, and the substring test \<open>sub in s\<close>.\<close>

definition lower_char :: "char \<Rightarrow> char" where
  "lower_char c =
     (case map_of (zip ''ABCDEFGHIJKLMNOPQRSTUVWXYZ'' ''abcdefghijklmnopqrstuvwxyz'') c of
        None \<Rightarrow> c
      | Some l \<Rightarrow> l)"

definition lower :: "string \<Rightarrow> string" where
  "lower s = map lower_char s"

fun contains :: "string \<Rightarrow> string \<Rightarrow> bool" where
  "contains sub [] = (sub = [])"
| "contains sub (c # cs) = (take (length sub) (c # cs) = sub \<or> contains sub cs)"

text \<open>
  The dictionary returned by \<open>estimate_cost_from_text\<close>. The entry \<open>cost_formatted\<close>, the
  cost printed with four decimals, is left out.
\<close>

record cost_breakdown =
  bd_model :: string
  bd_input_tokens :: int
  bd_output_tokens :: int
  bd_cached_tokens :: int
  bd_estimated_cost :: real
  bd_is_estimated :: bool

definition estimate_cost_from_text ::
  "pricing_file \<Rightarrow> string \<Rightarrow> string \<Rightarrow> int \<Rightarrow> real \<Rightarrow> error + cost_breakdown" where
  "estimate_cost_from_text yaml model input_text expected_output_tokens cached_ratio =
     (if \<not> (0 \<le> cached_ratio \<and> cached_ratio \<le> 1) then Inl InvalidCachedRatio
      else
        let input_tokens = estimate_tokens input_text;
            cached_tokens = int_of_float (real_of_int input_tokens * cached_ratio)
        in case estimate_cost yaml model input_tokens expected_output_tokens cached_tokens of
             Inl e \<Rightarrow> Inl e
           | Inr cost \<Rightarrow>
               let is_estimated = contains ''pro'' (lower model)
               in Inr \<lparr>bd_model = model,
                       bd_input_tokens = input_tokens,
                       bd_output_tokens = expected_output_tokens,
                       bd_cached_tokens = cached_tokens,
                       bd_estimated_cost = cost,
                       bd_is_estimated = is_estimated\<rparr>)"

section \<open>Cost tracker (cost_tracker.py)\<close>

text \<open>
  The older module keeps its own table \<open>PRICING\<close>, keyed by the user-facing model name,
  whose entries carry a cached rate and the \<open>is_estimated\<close> flag. Its \<open>estimate_tokens\<close>
  is the same function as the one of costs.py, which stands for both. Its functions are
  named with the prefix \<open>tracker_\<close> here, since costs.py uses the same names.
\<close>

record tracker_price =
  tp_input :: real
  tp_output :: real
  tp_cached :: real
  tp_is_estimated :: bool

definition GPT_INSTANT_PRICING :: tracker_price where
  "GPT_INSTANT_PRICING =
     \<lparr>tp_input = 0.40, tp_output = 1.60, tp_cached = 0.04, tp_is_estimated = False\<rparr>"

definition GPT_STANDARD_PRICING :: tracker_price where
  "GPT_STANDARD_PRICING =
     \<lparr>tp_input = 1.75, tp_output = 14.00, tp_cached = 0.175, tp_is_estimated = False\<rparr>"

definition GPT_PRO_PRICING :: tracker_price where
  "GPT_PRO_PRICING =
     \<lparr>tp_input = 8.75, tp_output = 70.00, tp_cached = 0.875, tp_is_estimated = True\<rparr>"

definition GEMINI_FLASH_PRICING :: tracker_price where
  "GEMINI_FLASH_PRICING =
     \<lparr>tp_input = 0.075, tp_output = 0.30, tp_cached = 0.01875, tp_is_estimated = False\<rparr>"

definition CLAUDE_SONNET_PRICING :: tracker_price where
  "CLAUDE_SONNET_PRICING =
     \<lparr>tp_input = 3.00, tp_output = 15.00, tp_cached = 0.30, tp_is_estimated = True\<rparr>"

definition PRICING :: "string \<rightharpoonup> tracker_price" where
  "PRICING = map_of
     [(''gpt-5.2-instant'', GPT_INSTANT_PRICING),
      (''gpt-5.2-chat-latest'', GPT_STANDARD_PRICING),
      (''gpt-5.2'', GPT_STANDARD_PRICING),
      (''gpt-5'', GPT_STANDARD_PRICING),
      (''gpt'', GPT_STANDARD_PRICING),
      (''gpt-5.2-pro'', GPT_PRO_PRICING),
      (''gemini'', GEMINI_FLASH_PRICING),
      (''gemini-3-flash-preview'', GEMINI_FLASH_PRICING),
      (''claude'', CLAUDE_SONNET_PRICING),
      (''claude-sonnet-4-5-20250929'', CLAUDE_SONNET_PRICING)]"

definition tracker_estimate_cost :: "string \<Rightarrow> int \<Rightarrow> int \<Rightarrow> int \<Rightarrow> error + real" where
  "tracker_estimate_cost model input_tokens output_tokens cached_tokens =
     (case PRICING model of
        None \<Rightarrow> Inl UnknownModel
      | Some pricing \<Rightarrow>
          let cached_tokens = max 0 (min cached_tokens input_tokens);
              uncached_tokens = input_tokens - cached_tokens;
              input_cost = (real_of_int uncached_tokens / 1000000) * tp_input pricing;
              cached_cost = (real_of_int cached_tokens / 1000000) * tp_cached pricing;
              output_cost = (real_of_int output_tokens / 1000000) * tp_output pricing;
              total_cost = input_cost + cached_cost + output_cost
          in Inr total_cost)"

definition tracker_estimate_cost_from_text ::
  "string \<Rightarrow> string \<Rightarrow> int \<Rightarrow> real \<Rightarrow> error + cost_breakdown" where
  "tracker_estimate_cost_from_text model input_text expected_output_tokens cached_ratio =
     (if \<not> (0 \<le> cached_ratio \<and> cached_ratio \<le> 1) then Inl InvalidCachedRatio
      else
        let input_tokens = estimate_tokens input_text;
            cached_tokens = int_of_float (real_of_int input_tokens * cached_ratio)
        in case tracker_estimate_cost model input_tokens expected_output_tokens cached_tokens of
             Inl e \<Rightarrow> Inl e
           | Inr cost \<Rightarrow>
               let is_estimated = (case PRICING model of None \<Rightarrow> True | Some pricing \<Rightarrow> tp_is_estimated pricing)
               in Inr \<lparr>bd_model = model,
                       bd_input_tokens = input_tokens,
                       bd_output_tokens = expected_output_tokens,
                       bd_cached_tokens = cached_tokens,
                       bd_estimated_cost = cost,
                       bd_is_estimated = is_estimated\<rparr>)"

section \<open>The cost estimator in floating-point arithmetic\<close>

text \<open>
  The functions of costs.py above compute with exact numbers. That is what the properties
  of the clamp, of the flag and of the breakdown's bounds are about; it is not what the
  code computes to the last digit. A Python \<open>float\<close> is an IEEE 754 double: 53 significant
  bits, exponents from -1022 to 1023, subnormal numbers below, infinities and NaN, and
  every operation returns the double nearest to the exact result, ties to the even
  significand. This section states the same two functions once more with every arithmetic
  operation of the code rounded. The zero of a \<open>pyfloat\<close> stands for both signed zeros.

  \<open>round_double x\<close> is the double nearest to the real \<open>x\<close>: the spacing of the doubles
  around \<open>x\<close> is \<open>2 powi ulp_exponent x\<close>, and a result of magnitude \<open>2 ^ 1024\<close> or more is an
  infinity.
\<close>

datatype pyfloat = Finite real | PosInf | NegInf | NaN

definition round_half_even :: "real \<Rightarrow> int" where
  "round_half_even y =
     (let f = \<lfloor>y\<rfloor>; d = y - of_int f
      in if d < 1 / 2 then f else if 1 / 2 < d then f + 1 else if even f then f else f + 1)"

definition ulp_exponent :: "real \<Rightarrow> int" where
  "ulp_exponent x = max \<lfloor>log 2 \<bar>x\<bar>\<rfloor> (- 1022) - 52"

definition nearest_double :: "real \<Rightarrow> real" where
  "nearest_double x =
     (if x = 0 then 0
      else of_int (round_half_even (x / 2 powi ulp_exponent x)) * 2 powi ulp_exponent x)"

definition round_double :: "real \<Rightarrow> pyfloat" where
  "round_double x =
     (let y = nearest_double x
      in if 2 ^ 1024 \<le> y then PosInf else if y \<le> - (2 ^ 1024) then NegInf else Finite y)"

text \<open>Sum, difference, product and \<open><=\<close> of two floats. None of them raises.\<close>

fun fadd :: "pyfloat \<Rightarrow> pyfloat \<Rightarrow> pyfloat" where
  "fadd (Finite a) (Finite b) = round_double (a + b)"
| "fadd NaN _ = NaN"
| "fadd _ NaN = NaN"
| "fadd PosInf NegInf = NaN"
| "fadd NegInf PosInf = NaN"
| "fadd PosInf _ = PosInf"
| "fadd _ PosInf = PosInf"
| "fadd NegInf _ = NegInf"
| "fadd _ NegInf = NegInf"

fun fneg :: "pyfloat \<Rightarrow> pyfloat" where
  "fneg (Finite a) = Finite (- a)"
| "fneg PosInf = NegInf"
| "fneg NegInf = PosInf"
| "fneg NaN = NaN"

definition fsub :: "pyfloat \<Rightarrow> pyfloat \<Rightarrow> pyfloat" where
  "fsub x y = fadd x (fneg y)"

fun fmul :: "pyfloat \<Rightarrow> pyfloat \<Rightarrow> pyfloat" where
  "fmul (Finite a) (Finite b) = round_double (a * b)"
| "fmul NaN _ = NaN"
| "fmul _ NaN = NaN"
| "fmul (Finite a) PosInf = (if a = 0 then NaN else if 0 < a then PosInf else NegInf)"
| "fmul (Finite a) NegInf = (if a = 0 then NaN else if 0 < a then NegInf else PosInf)"
| "fmul PosInf (Finite b) = (if b = 0 then NaN else if 0 < b then PosInf else NegInf)"
| "fmul NegInf (Finite b) = (if b = 0 then NaN else if 0 < b then NegInf else PosInf)"
| "fmul PosInf PosInf = PosInf"
| "fmul NegInf NegInf = PosInf"
| "fmul PosInf NegInf = NegInf"
| "fmul NegInf PosInf = NegInf"

fun fle :: "pyfloat \<Rightarrow> pyfloat \<Rightarrow> bool" where
  "fle NaN _ = False"
| "fle _ NaN = False"
| "fle (Finite a) (Finite b) = (a \<le> b)"
| "fle NegInf _ = True"
| "fle _ PosInf = True"
| "fle PosInf _ = False"
| "fle _ NegInf = False"

text \<open>
  \<open>a / b\<close> on two ints is the double nearest to the quotient, and \<open>OverflowError\<close> when that
  is out of range. An int that meets a float in an operation is converted first, with the
  same error. \<open>int(x)\<close> truncates a finite float and raises on the others.
\<close>

definition truediv :: "int \<Rightarrow> int \<Rightarrow> error + pyfloat" where
  "truediv a b =
     (if b = 0 then Inl ZeroDivisionError
      else case round_double (real_of_int a / real_of_int b) of
             Finite y \<Rightarrow> Inr (Finite y)
           | _ \<Rightarrow> Inl OverflowError)"

definition float_of_int :: "int \<Rightarrow> error + pyfloat" where
  "float_of_int n =
     (case round_double (real_of_int n) of
        Finite y \<Rightarrow> Inr (Finite y)
      | _ \<Rightarrow> Inl OverflowError)"

definition int_of_pyfloat :: "pyfloat \<Rightarrow> error + int" where
  "int_of_pyfloat x =
     (case x of
        Finite y \<Rightarrow> Inr (int_of_float y)
      | NaN \<Rightarrow> Inl CannotConvertNaN
      | _ \<Rightarrow> Inl OverflowError)"

text \<open>
  \<open>estimate_cost\<close> with the operations of the code, in the order of the code. A rate of the
  price entry and a discount of \<open>CACHE_DISCOUNTS\<close> is the double nearest to the number
  written in the table.
\<close>

definition estimate_cost_float ::
  "pricing_file \<Rightarrow> string \<Rightarrow> int \<Rightarrow> int \<Rightarrow> int \<Rightarrow> error + pyfloat" where
  "estimate_cost_float yaml model input_tokens output_tokens cached_tokens =
     (case normalize_model_name model of
        Inl e \<Rightarrow> Inl e
      | Inr (provider, api_model) \<Rightarrow>
          (case get_model_pricing yaml provider api_model of
             None \<Rightarrow> Inl NoPricingData
           | Some pricing \<Rightarrow>
               if pricing = [] then Inl NoPricingData
               else
                 let cached_tokens = max 0 (min cached_tokens input_tokens);
                     uncached_tokens = input_tokens - cached_tokens
                 in case truediv uncached_tokens 1000000 of
                      Inl e \<Rightarrow> Inl e
                    | Inr uncached_millions \<Rightarrow>
                 let input_cost =
                       fmul uncached_millions (round_double (get_or (map_of pricing) ''input'' 0));
                     cache_discount = round_double (get_or CACHE_DISCOUNTS provider 0.90);
                     cached_price =
                       fmul (round_double (get_or (map_of pricing) ''input'' 0))
                         (fsub (Finite 1) cache_discount)
                 in case truediv cached_tokens 1000000 of
                      Inl e \<Rightarrow> Inl e
                    | Inr cached_millions \<Rightarrow>
                 let cached_cost = fmul cached_millions cached_price
                 in case truediv output_tokens 1000000 of
                      Inl e \<Rightarrow> Inl e
                    | Inr output_millions \<Rightarrow>
                 let output_cost =
                       fmul output_millions (round_double (get_or (map_of pricing) ''output'' 0));
                     total_cost = fadd (fadd input_cost cached_cost) output_cost
                 in Inr total_cost))"

record float_breakdown =
  fb_model :: string
  fb_input_tokens :: int
  fb_output_tokens :: int
  fb_cached_tokens :: int
  fb_estimated_cost :: pyfloat
  fb_is_estimated :: bool

text \<open>
  \<open>estimate_cost_from_text\<close> with the operations of the code; \<open>cached_ratio\<close> is a float. The
  test \<open>0.0 <= cached_ratio <= 1.0\<close> is false of NaN.
\<close>

definition estimate_cost_from_text_float ::
  "pricing_file \<Rightarrow> string \<Rightarrow> string \<Rightarrow> int \<Rightarrow> pyfloat \<Rightarrow> error + float_breakdown" where
  "estimate_cost_from_text_float yaml model input_text expected_output_tokens cached_ratio =
     (if \<not> (fle (Finite 0) cached_ratio \<and> fle cached_ratio (Finite 1)) then Inl InvalidCachedRatio
      else
        let input_tokens = estimate_tokens input_text
        in case float_of_int input_tokens of
             Inl e \<Rightarrow> Inl e
           | Inr input_tokens_float \<Rightarrow>
        (case int_of_pyfloat (fmul input_tokens_float cached_ratio) of
             Inl e \<Rightarrow> Inl e
           | Inr cached_tokens \<Rightarrow>
        (case estimate_cost_float yaml model input_tokens expected_output_tokens cached_tokens of
             Inl e \<Rightarrow> Inl e
           | Inr cost \<Rightarrow>
               let is_estimated = contains ''pro'' (lower model)
               in Inr \<lparr>fb_model = model,
                       fb_input_tokens = input_tokens,
                       fb_output_tokens = expected_output_tokens,
                       fb_cached_tokens = cached_tokens,
                       fb_estimated_cost = cost,
                       fb_is_estimated = is_estimated\<rparr>)))"

section \<open>Properties of the response cache\<close>

subsection \<open>What a lookup sees after a store\<close>

lemma timedelta_hours_in_range:
  "- 23999999976 \<le> ttl_hours \<Longrightarrow> ttl_hours \<le> 23999999999 \<Longrightarrow>
   timedelta_hours ttl_hours = Some (ttl_hours * 3600000000)"
  unfolding timedelta_hours_def by (simp, presburger)

lemma timedelta_hours_out_of_range:
  "ttl_hours < - 23999999976 \<or> 23999999999 < ttl_hours \<Longrightarrow> timedelta_hours ttl_hours = None"
  unfolding timedelta_hours_def by (simp, presburger)

lemma lookup_after_store:
  "get_cached_response sha256 (cache_response sha256 dir T True model prompt response system_prompt)
       now unlink_ok model prompt system_prompt ttl_hours
     = (case timedelta_hours ttl_hours of
          None \<Rightarrow> (None, cache_response sha256 dir T True model prompt response system_prompt)
        | Some ttl \<Rightarrow>
            if now - T > ttl
            then (None, if unlink_ok
                        then (cache_response sha256 dir T True model prompt response system_prompt)
                               (get_cache_key sha256 model prompt system_prompt := None)
                        else cache_response sha256 dir T True model prompt response system_prompt)
            else (Some response, cache_response sha256 dir T True model prompt response system_prompt))"
  by (simp add: get_cached_response_def cache_response_def Let_def split: option.splits)

lemma failed_store_changes_nothing:
  "cache_response sha256 dir now False model prompt response system_prompt = dir"
  by (simp add: cache_response_def)

text \<open>
  Claim C1, as stated, fails. The store and the lookup read the clock one after the other,
  and with \<open>ttl_hours = 0\<close> a lookup one microsecond after the store finds the entry
  expired: it returns nothing and removes the file. And for \<open>ttl_hours \<ge> 24000000000\<close> the
  \<open>timedelta\<close> cannot be built, so a lookup returns nothing even at the clock reading of
  the store.
\<close>

theorem round_trip_fails_at_ttl_zero:
  "get_cached_response (\<lambda>s. s)
       (cache_response (\<lambda>s. s) Map.empty 1000 True ''gpt'' ''hello'' ''world'' None)
       1001 True ''gpt'' ''hello'' None 0
     = (None, Map.empty)
   \<and> get_cached_response (\<lambda>s. s)
       (cache_response (\<lambda>s. s) Map.empty 1000 True ''gpt'' ''hello'' ''world'' None)
       1000 True ''gpt'' ''hello'' None 24000000000
     = (None, cache_response (\<lambda>s. s) Map.empty 1000 True ''gpt'' ''hello'' ''world'' None)"
  by (simp add: lookup_after_store timedelta_hours_def)
    (simp add: cache_response_def)

text \<open>
  Claim C1, amended. After a store that went through, a lookup with the same model, prompt
  and system prompt and a \<open>ttl_hours\<close> from 0 to 23999999999 returns exactly the stored
  response, and leaves the directory as the store left it, when the clock reading of the
  lookup is at most \<open>ttl_hours\<close> hours after that of the store; and only then does it
  return the response.
\<close>

theorem cache_round_trip_within_ttl:
  assumes "0 \<le> ttl_hours" and "ttl_hours \<le> 23999999999"
  shows "(later - now \<le> ttl_hours * 3600000000 \<longrightarrow>
            get_cached_response sha256
                (cache_response sha256 dir now True model prompt response system_prompt)
                later unlink_ok model prompt system_prompt ttl_hours
              = (Some response,
                 cache_response sha256 dir now True model prompt response system_prompt))
       \<and> (fst (get_cached_response sha256
                (cache_response sha256 dir now True model prompt response system_prompt)
                later unlink_ok model prompt system_prompt ttl_hours) = Some response
            \<longleftrightarrow> later - now \<le> ttl_hours * 3600000000)"
proof -
  have "timedelta_hours ttl_hours = Some (ttl_hours * 3600000000)"
    using assms by (intro timedelta_hours_in_range) simp_all
  then show ?thesis
    by (simp add: lookup_after_store)
qed

theorem cache_round_trip_within_ttl_witness:
  "(0::int) \<le> 0 \<and> (0::int) \<le> 23999999999 \<and> (1000::int) - 1000 \<le> 0 * 3600000000
   \<and> get_cached_response (\<lambda>s. s)
       (cache_response (\<lambda>s. s) Map.empty 1000 True ''gpt'' ''hello'' ''world'' None)
       1000 True ''gpt'' ''hello'' None 0
     = (Some ''world'', cache_response (\<lambda>s. s) Map.empty 1000 True ''gpt'' ''hello'' ''world'' None)
   \<and> (0::int) \<le> 24 \<and> (24::int) \<le> 23999999999 \<and> (86400001000::int) - 1000 \<le> 24 * 3600000000
   \<and> get_cached_response (\<lambda>s. s)
       (cache_response (\<lambda>s. s) Map.empty 1000 True ''gpt'' ''hello'' ''world'' None)
       86400001000 True ''gpt'' ''hello'' None 24
     = (Some ''world'', cache_response (\<lambda>s. s) Map.empty 1000 True ''gpt'' ''hello'' ''world'' None)"
proof -
  have a: "(0::int) \<le> 0" "(0::int) \<le> 23999999999" by simp_all
  have b: "(0::int) \<le> 24" "(24::int) \<le> 23999999999" by simp_all
  show ?thesis
    using cache_round_trip_within_ttl [OF a, where later=1000 and now=1000
        and ?sha256.0="\<lambda>s. s" and dir=Map.empty and model="''gpt''" and prompt="''hello''"
        and response="''world''" and system_prompt=None and unlink_ok=True]
      cache_round_trip_within_ttl [OF b, where later=86400001000 and now=1000
        and ?sha256.0="\<lambda>s. s" and dir=Map.empty and model="''gpt''" and prompt="''hello''"
        and response="''world''" and system_prompt=None and unlink_ok=True]
    by simp
qed

text \<open>
  Claim C2, as stated, fails for the values of \<open>ttl_hours\<close> whose \<open>timedelta\<close> cannot be
  built. With \<open>ttl_hours = 1000000000000\<close> a lookup at the time of the store, long before
  \<open>T + ttl_hours\<close>, returns nothing. With \<open>ttl_hours = -24000000000\<close> a lookup at the time
  of the store, long after \<open>T + ttl_hours\<close>, returns nothing but leaves the file in place,
  also when an unlink would go through.
\<close>

theorem ttl_out_of_range:
  "get_cached_response (\<lambda>s. s)
       (cache_response (\<lambda>s. s) Map.empty 0 True ''gpt'' ''hello'' ''world'' None)
       0 True ''gpt'' ''hello'' None 1000000000000
     = (None, cache_response (\<lambda>s. s) Map.empty 0 True ''gpt'' ''hello'' ''world'' None)
   \<and> (0::int) < 0 + 1000000000000 * 3600000000
   \<and> get_cached_response (\<lambda>s. s)
       (cache_response (\<lambda>s. s) Map.empty 0 True ''gpt'' ''hello'' ''world'' None)
       0 True ''gpt'' ''hello'' None (- 24000000000)
     = (None, cache_response (\<lambda>s. s) Map.empty 0 True ''gpt'' ''hello'' ''world'' None)
   \<and> (0::int) + (- 24000000000) * 3600000000 < 0
   \<and> cache_response (\<lambda>s. s) Map.empty 0 True ''gpt'' ''hello'' ''world'' None
        (get_cache_key (\<lambda>s. s) ''gpt'' ''hello'' None) \<noteq> None"
  by (simp add: lookup_after_store timedelta_hours_def)
    (simp add: cache_response_def)

text \<open>
  Claim C2, amended. Take an entry stored at time \<open>T\<close>. For every \<open>ttl_hours\<close> from
  -23999999976 to 23999999999, the values \<open>timedelta\<close> accepts: a lookup strictly after
  \<open>T + ttl_hours\<close> hours returns nothing and removes the entry's file (when the unlink
  fails, it still returns nothing and the file stays); a lookup strictly before that time
  returns the stored response and changes nothing; in general the entry is expired exactly
  when \<open>now - T > ttl_hours\<close> hours, so at \<open>now = T + ttl_hours\<close> hours it is still
  returned. For every other \<open>ttl_hours\<close> a lookup returns nothing and changes nothing.
  Times are in microseconds, an hour is 3600000000 of them.
\<close>

theorem ttl_boundary_in_range:
  "(let stored = cache_response sha256 dir T True model prompt response system_prompt;
        cache_key = get_cache_key sha256 model prompt system_prompt
    in (- 23999999976 \<le> ttl_hours \<and> ttl_hours \<le> 23999999999 \<longrightarrow>
          (T + ttl_hours * 3600000000 < now \<longrightarrow>
              get_cached_response sha256 stored now True model prompt system_prompt ttl_hours
                = (None, stored(cache_key := None)) \<and>
              get_cached_response sha256 stored now False model prompt system_prompt ttl_hours
                = (None, stored))
          \<and> (now < T + ttl_hours * 3600000000 \<longrightarrow>
              get_cached_response sha256 stored now unlink_ok model prompt system_prompt ttl_hours
                = (Some response, stored))
          \<and> get_cached_response sha256 stored now unlink_ok model prompt system_prompt ttl_hours
              = (if now - T > ttl_hours * 3600000000
                 then (None, if unlink_ok then stored(cache_key := None) else stored)
                 else (Some response, stored)))
       \<and> (ttl_hours < - 23999999976 \<or> 23999999999 < ttl_hours \<longrightarrow>
            get_cached_response sha256 stored now unlink_ok model prompt system_prompt ttl_hours
              = (None, stored)))"
proof -
  have a: "timedelta_hours ttl_hours = Some (ttl_hours * 3600000000)"
    if "- 23999999976 \<le> ttl_hours \<and> ttl_hours \<le> 23999999999"
    using that by (intro timedelta_hours_in_range) simp_all
  have b: "timedelta_hours ttl_hours = None"
    if "ttl_hours < - 23999999976 \<or> 23999999999 < ttl_hours"
    using that by (rule timedelta_hours_out_of_range)
  show ?thesis
    using a b by (auto simp add: lookup_after_store Let_def)
qed

theorem ttl_boundary_in_range_witness:
  "(let stored = cache_response (\<lambda>s. s) Map.empty 0 True ''gpt'' ''hello'' ''world'' (Some ''sys'')
    in (- 23999999976 \<le> (1::int) \<and> (1::int) \<le> 23999999999)
       \<and> (0::int) + 1 * 3600000000 < 3600000001
       \<and> get_cached_response (\<lambda>s. s) stored 3600000001 True ''gpt'' ''hello'' (Some ''sys'') 1
            = (None, Map.empty)
       \<and> get_cached_response (\<lambda>s. s) stored 3600000001 False ''gpt'' ''hello'' (Some ''sys'') 1
            = (None, stored)
       \<and> (3599999999::int) < 0 + 1 * 3600000000
       \<and> get_cached_response (\<lambda>s. s) stored 3599999999 True ''gpt'' ''hello'' (Some ''sys'') 1
            = (Some ''world'', stored)
       \<and> get_cached_response (\<lambda>s. s) stored 3600000000 True ''gpt'' ''hello'' (Some ''sys'') 1
            = (Some ''world'', stored)
       \<and> (23999999999::int) < 24000000000
       \<and> get_cached_response (\<lambda>s. s) stored 0 True ''gpt'' ''hello'' (Some ''sys'') 24000000000
            = (None, stored))"
  using ttl_boundary_in_range [where T=0 and ttl_hours=1 and now=3600000001 and ?sha256.0="\<lambda>s. s"
      and dir=Map.empty and model="''gpt''" and prompt="''hello''" and response="''world''"
      and system_prompt="Some ''sys''" and unlink_ok=True]
    ttl_boundary_in_range [where T=0 and ttl_hours=1 and now=3599999999 and ?sha256.0="\<lambda>s. s"
      and dir=Map.empty and model="''gpt''" and prompt="''hello''" and response="''world''"
      and system_prompt="Some ''sys''" and unlink_ok=True]
    ttl_boundary_in_range [where T=0 and ttl_hours=1 and now=3600000000 and ?sha256.0="\<lambda>s. s"
      and dir=Map.empty and model="''gpt''" and prompt="''hello''" and response="''world''"
      and system_prompt="Some ''sys''" and unlink_ok=True]
    ttl_boundary_in_range [where T=0 and ttl_hours=24000000000 and now=0 and ?sha256.0="\<lambda>s. s"
      and dir=Map.empty and model="''gpt''" and prompt="''hello''" and response="''world''"
      and system_prompt="Some ''sys''" and unlink_ok=True]
  by (simp add: Let_def cache_response_def)

subsection \<open>The cache key\<close>

lemma content_model: "cache_key_content m p sp = cache_key_content m' p sp \<longleftrightarrow> m = m'"
  by (simp add: cache_key_content_def)

lemma content_prompt: "cache_key_content m p sp = cache_key_content m p' sp \<longleftrightarrow> p = p'"
  by (simp add: cache_key_content_def)

lemma content_system:
  "cache_key_content m p sp = cache_key_content m p sp' \<longleftrightarrow> or_empty sp = or_empty sp'"
  by (simp add: cache_key_content_def)

lemma colon_split:
  assumes "CHR '':'' \<notin> set a" and "CHR '':'' \<notin> set a'"
    and "a @ CHR '':'' # x = a' @ CHR '':'' # x'"
  shows "a = a' \<and> x = x'"
  using assms
proof (induction a arbitrary: a')
  case Nil
  then show ?case by (cases a') auto
next
  case (Cons c cs)
  then show ?case by (cases a') auto
qed

lemma content_injective_without_colon:
  assumes "CHR '':'' \<notin> set m" and "CHR '':'' \<notin> set m'"
    and "CHR '':'' \<notin> set (or_empty sp)" and "CHR '':'' \<notin> set (or_empty sp')"
  shows "cache_key_content m p sp = cache_key_content m' p' sp'
           \<longleftrightarrow> m = m' \<and> p = p' \<and> or_empty sp = or_empty sp'"
proof
  assume "cache_key_content m p sp = cache_key_content m' p' sp'"
  then have e: "m @ CHR '':'' # (or_empty sp @ CHR '':'' # p)
                  = m' @ CHR '':'' # (or_empty sp' @ CHR '':'' # p')"
    by (simp add: cache_key_content_def)
  from colon_split [OF assms(1,2) e]
  have 1: "m = m'" and 2: "or_empty sp @ CHR '':'' # p = or_empty sp' @ CHR '':'' # p'"
    by simp_all
  from colon_split [OF assms(3,4) 2] 1
  show "m = m' \<and> p = p' \<and> or_empty sp = or_empty sp'" by simp
next
  assume "m = m' \<and> p = p' \<and> or_empty sp = or_empty sp'"
  then show "cache_key_content m p sp = cache_key_content m' p' sp'"
    by (simp add: cache_key_content_def)
qed

text \<open>
  Claim C3, as stated, fails: the three components are joined with \<open>:\<close> and nothing is
  escaped, so two distinct triples can give the same text to the hash, and then the same
  key whatever the hash is. Here the model is the same and a colon moves between the
  system prompt and the prompt.
\<close>

theorem get_cache_key_collision:
  "(''gpt'', Some ''a:b'', ''c'') \<noteq> (''gpt'', Some ''a'', ''b:c'')
   \<and> cache_key_content ''gpt'' ''c'' (Some ''a:b'') = cache_key_content ''gpt'' ''b:c'' (Some ''a'')
   \<and> (\<forall>sha256. get_cache_key sha256 ''gpt'' ''c'' (Some ''a:b'')
                 = get_cache_key sha256 ''gpt'' ''b:c'' (Some ''a''))"
  by (simp add: get_cache_key_def cache_key_content_def or_empty_def)

text \<open>
  Claim C3, amended. The key is a function of the triple. For a hash without collisions
  (an injective \<open>sha256\<close>), with \<open>None\<close> read as the empty system prompt: two triples whose
  models and system prompts hold no \<open>:\<close> have the same key only if they are the same
  triple, whatever the prompts are; and two triples that differ in one component only have
  different keys, colons or not. Only triples that differ in two or more components, with a
  \<open>:\<close> in a model or a system prompt, can share a key.
\<close>

theorem get_cache_key_injective:
  assumes "inj sha256"
  shows "(CHR '':'' \<notin> set m \<and> CHR '':'' \<notin> set m'
          \<and> CHR '':'' \<notin> set (or_empty sp) \<and> CHR '':'' \<notin> set (or_empty sp') \<longrightarrow>
            (get_cache_key sha256 m p sp = get_cache_key sha256 m' p' sp'
               \<longleftrightarrow> m = m' \<and> p = p' \<and> or_empty sp = or_empty sp'))
       \<and> (get_cache_key sha256 m p sp = get_cache_key sha256 m' p sp \<longleftrightarrow> m = m')
       \<and> (get_cache_key sha256 m p sp = get_cache_key sha256 m p' sp \<longleftrightarrow> p = p')
       \<and> (get_cache_key sha256 m p sp = get_cache_key sha256 m p sp'
            \<longleftrightarrow> or_empty sp = or_empty sp')"
  using assms content_injective_without_colon [of m m' sp sp' p p']
  by (simp add: get_cache_key_def inj_eq content_model content_prompt content_system)

theorem get_cache_key_injective_witness:
  "inj (\<lambda>s::string. s)
   \<and> CHR '':'' \<notin> set ''gpt'' \<and> CHR '':'' \<notin> set ''gemini''
   \<and> CHR '':'' \<notin> set (or_empty (Some ''sys'')) \<and> CHR '':'' \<notin> set (or_empty None)
   \<and> get_cache_key (\<lambda>s. s) ''gpt'' ''p: q'' (Some ''sys'') \<noteq> get_cache_key (\<lambda>s. s) ''gemini'' ''q'' None
   \<and> get_cache_key (\<lambda>s. s) ''gpt'' ''p: q'' (Some ''sys'') \<noteq> get_cache_key (\<lambda>s. s) ''gpt'' ''p: q'' None
   \<and> get_cache_key (\<lambda>s. s) ''gpt'' ''q'' (Some []) = get_cache_key (\<lambda>s. s) ''gpt'' ''q'' None
   \<and> get_cache_key (\<lambda>s. s) ''a:b'' ''p'' (Some ''s:t'') \<noteq> get_cache_key (\<lambda>s. s) ''a:b'' ''q'' (Some ''s:t'')"
proof -
  have i: "inj (\<lambda>s::string. s)" by (simp add: inj_def)
  show ?thesis
    using i
      get_cache_key_injective [OF i, of "''gpt''" "''gemini''" "Some ''sys''" None "''p: q''" "''q''"]
      get_cache_key_injective [OF i, of "''gpt''" "''gpt''" "Some ''sys''" None "''p: q''" "''p: q''"]
      get_cache_key_injective [OF i, of "''gpt''" "''gpt''" "Some []" None "''q''" "''q''"]
      get_cache_key_injective [OF i, of "''a:b''" "''a:b''" "Some ''s:t''" "Some ''s:t''" "''p''" "''q''"]
    by (simp add: or_empty_def)
qed

text \<open>
  Claim C10. An absent system prompt and the empty system prompt are interchangeable:
  both give the same key, so lookups and stores with the one are lookups and stores with
  the other, and an entry stored with the one is found with the other.
\<close>

theorem none_and_empty_system_prompt:
  "get_cache_key sha256 model prompt None = get_cache_key sha256 model prompt (Some [])
   \<and> get_cached_response sha256 dir now unlink_ok model prompt None ttl_hours
       = get_cached_response sha256 dir now unlink_ok model prompt (Some []) ttl_hours
   \<and> cache_response sha256 dir now write_ok model prompt response None
       = cache_response sha256 dir now write_ok model prompt response (Some [])
   \<and> get_cached_response sha256 (cache_response sha256 dir now True model prompt response None)
         now unlink_ok model prompt (Some []) 24
       = (Some response, cache_response sha256 dir now True model prompt response None)
   \<and> get_cached_response sha256 (cache_response sha256 dir now True model prompt response (Some []))
         now unlink_ok model prompt None 24
       = (Some response, cache_response sha256 dir now True model prompt response (Some []))"
  by (simp add: get_cached_response_def cache_response_def get_cache_key_def
      cache_key_content_def or_empty_def Let_def timedelta_hours_def)

section \<open>Properties of the pricing store\<close>

lemma load_defaults:
  "yaml = Absent \<or> yaml = Unusable \<Longrightarrow> load_pricing yaml = DEFAULT_PRICING"
  by (auto simp add: load_pricing_def)

lemma default_openai:
  "\<exists>s e. DEFAULT_PRICING ''openai'' = Some s \<and> s ''gpt-5.2'' = Some e"
  by (simp add: DEFAULT_PRICING_def)

lemma default_google:
  "\<exists>s e. DEFAULT_PRICING ''google'' = Some s \<and> s ''gemini-3-flash-preview'' = Some e"
  by (simp add: DEFAULT_PRICING_def)

lemma default_anthropic:
  "\<exists>s e. DEFAULT_PRICING ''anthropic'' = Some s \<and> s ''claude-sonnet-4-5-20250929'' = Some e"
  by (simp add: DEFAULT_PRICING_def)

lemma default_sections:
  assumes "provider = ''openai'' \<or> provider = ''google'' \<or> provider = ''anthropic''"
  shows "\<exists>s e. DEFAULT_PRICING provider = Some s
     \<and> s (if provider = ''openai'' then ''gpt-5.2''
           else if provider = ''google'' then ''gemini-3-flash-preview''
           else ''claude-sonnet-4-5-20250929'') = Some e"
  using assms default_openai default_google default_anthropic
  by (elim disjE) simp_all

lemma get_model_pricing_unfold:
  "get_model_pricing yaml provider model =
     (case (case load_pricing yaml provider of None \<Rightarrow> Map.empty | Some s \<Rightarrow> s) model of
        Some entry \<Rightarrow> Some entry
      | None \<Rightarrow>
          if provider = ''openai''
          then (case load_pricing yaml provider of None \<Rightarrow> Map.empty | Some s \<Rightarrow> s) ''gpt-5.2''
          else if provider = ''google''
          then (case load_pricing yaml provider of None \<Rightarrow> Map.empty | Some s \<Rightarrow> s)
                 ''gemini-3-flash-preview''
          else if provider = ''anthropic''
          then (case load_pricing yaml provider of None \<Rightarrow> Map.empty | Some s \<Rightarrow> s)
                 ''claude-sonnet-4-5-20250929''
          else None)"
  by (simp add: get_model_pricing_def Let_def)

lemma price_nonempty: "price a b \<noteq> []"
  by (simp add: price_def)

lemma price_rates:
  "get_or (map_of (price i out)) ''input'' 0 = i"
  "get_or (map_of (price i out)) ''output'' 0 = out"
  by (simp_all add: price_def get_or_def)



lemma get_model_pricing_other_provider:
  assumes "provider \<noteq> ''openai''" "provider \<noteq> ''google''" "provider \<noteq> ''anthropic''"
  shows "get_model_pricing yaml provider model =
           (case load_pricing yaml provider of None \<Rightarrow> None | Some s \<Rightarrow> s model)"
  using assms unfolding get_model_pricing_unfold
  by (simp split: option.splits)

text \<open>
  Claim C6, as stated, fails: the table comes from the override file whenever that file
  carries the \<open>_metadata\<close> marker, and nothing makes such a file hold the default model
  of every provider. With a file that has a \<open>google\<close> section with one model only, a
  lookup for \<open>openai\<close> and a lookup for another \<open>google\<close> model are both absent, though
  both providers are recognized.
\<close>

theorem get_model_pricing_absent_for_known_provider:
  "get_model_pricing
     (Loaded (map_of [(''google'', map_of [(''gemini-pro'', price 0.50 1.50)])]))
     ''openai'' ''gpt-5.2'' = None
   \<and> get_model_pricing
     (Loaded (map_of [(''google'', map_of [(''gemini-pro'', price 0.50 1.50)])]))
     ''google'' ''gemini-3-flash-preview'' = None
   \<and> get_model_pricing
     (Loaded (map_of [(''google'', map_of [(''gemini-pro'', price 0.50 1.50)])]))
     ''google'' ''gemini-pro'' = Some (price 0.50 1.50)"
  by (simp add: get_model_pricing_def load_pricing_def)

text \<open>
  Claim C6, amended. For a recognized provider, \<open>get_model_pricing\<close> returns the exact
  entry of the model when the provider's section of the loaded table has one, and the
  entry of the provider's default model otherwise; it is absent exactly when the section
  has neither. When the table is the embedded defaults (no usable override file), the
  result is never absent.
\<close>

theorem get_model_pricing_fallback:
  assumes "provider = ''openai'' \<or> provider = ''google'' \<or> provider = ''anthropic''"
  shows "(let provider_pricing = (case load_pricing yaml provider of None \<Rightarrow> Map.empty | Some s \<Rightarrow> s);
              default_model = (if provider = ''openai'' then ''gpt-5.2''
                               else if provider = ''google'' then ''gemini-3-flash-preview''
                               else ''claude-sonnet-4-5-20250929'')
          in get_model_pricing yaml provider model =
               (case provider_pricing model of
                  Some entry \<Rightarrow> Some entry
                | None \<Rightarrow> provider_pricing default_model)
             \<and> (get_model_pricing yaml provider model = None \<longleftrightarrow>
                  provider_pricing model = None \<and> provider_pricing default_model = None)
             \<and> (yaml = Absent \<or> yaml = Unusable \<longrightarrow> get_model_pricing yaml provider model \<noteq> None))"
proof -
  define provider_pricing where
    "provider_pricing = (case load_pricing yaml provider of None \<Rightarrow> Map.empty | Some s \<Rightarrow> s)"
  define default_model where
    "default_model = (if provider = ''openai'' then ''gpt-5.2''
                      else if provider = ''google'' then ''gemini-3-flash-preview''
                      else ''claude-sonnet-4-5-20250929'')"
  have eq: "get_model_pricing yaml provider model =
              (case provider_pricing model of
                 Some entry \<Rightarrow> Some entry
               | None \<Rightarrow> provider_pricing default_model)"
    using assms unfolding get_model_pricing_unfold provider_pricing_def default_model_def
    by (elim disjE) (simp_all split: option.splits)
  have none: "get_model_pricing yaml provider model = None \<longleftrightarrow>
                provider_pricing model = None \<and> provider_pricing default_model = None"
    unfolding eq by (simp split: option.splits)
  have dflt: "get_model_pricing yaml provider model \<noteq> None" if "yaml = Absent \<or> yaml = Unusable"
  proof -
    from default_sections [OF assms] load_defaults [OF that]
    obtain e where "provider_pricing default_model = Some e"
      unfolding provider_pricing_def default_model_def by auto
    then show ?thesis unfolding none by simp
  qed
  show ?thesis
    using eq none dflt
    unfolding Let_def provider_pricing_def [symmetric] default_model_def [symmetric]
    by blast
qed

theorem get_model_pricing_fallback_witness:
  "(''google'' = ''openai'' \<or> ''google'' = ''google'' \<or> ''google'' = ''anthropic'')
   \<and> get_model_pricing Absent ''google'' ''gemini-pro'' = Some (price 0.50 1.50)
   \<and> get_model_pricing Absent ''google'' ''no-such-model'' = Some (price 0.075 0.30)
   \<and> get_model_pricing Unusable ''google'' ''no-such-model'' \<noteq> None"
proof -
  have g: "''google'' = ''openai'' \<or> ''google'' = ''google'' \<or> ''google'' = ''anthropic''" by simp
  show ?thesis
    using get_model_pricing_fallback [OF g, of Absent "''gemini-pro''"]
      get_model_pricing_fallback [OF g, of Absent "''no-such-model''"]
      get_model_pricing_fallback [OF g, of Unusable "''no-such-model''"]
    by (simp add: Let_def load_pricing_def DEFAULT_PRICING_def)
qed

section \<open>Properties of the cost estimator\<close>

subsection \<open>The cost once the model and its price entry are resolved\<close>

lemma normalize_provider:
  "normalize_model_name model = Inr (provider, api_model) \<Longrightarrow>
   provider = ''openai'' \<or> provider = ''google'' \<or> provider = ''anthropic''"
  by (auto simp add: normalize_model_name_def via_alias_def subscript_def
      split: option.splits if_splits sum.splits)

lemma cache_discount_provider:
  "provider = ''openai'' \<or> provider = ''google'' \<or> provider = ''anthropic'' \<Longrightarrow>
   get_or CACHE_DISCOUNTS provider 0.90 = (if provider = ''google'' then 0.75 else 0.90)"
  by (auto simp add: get_or_def CACHE_DISCOUNTS_def)

lemma estimate_cost_resolved:
  assumes "normalize_model_name model = Inr (provider, api_model)"
    and "get_model_pricing yaml provider api_model = Some pricing"
    and "pricing \<noteq> []"
  shows "estimate_cost yaml model input_tokens output_tokens cached_tokens =
     Inr (real_of_int (input_tokens - max 0 (min cached_tokens input_tokens)) / 1000000
            * get_or (map_of pricing) ''input'' 0
          + real_of_int (max 0 (min cached_tokens input_tokens)) / 1000000
            * (get_or (map_of pricing) ''input'' 0
               * (1 - (if provider = ''google'' then 0.75 else 0.90)))
          + real_of_int output_tokens / 1000000 * get_or (map_of pricing) ''output'' 0)"
  using assms cache_discount_provider [OF normalize_provider [OF assms(1)]]
  by (simp add: estimate_cost_def Let_def)


lemma clamp_idem:
  "max 0 (min (max 0 (min c i)) i) = max (0::int) (min c i)"
  by (simp add: max_def min_def)

lemma estimate_cost_clamp:
  "estimate_cost yaml model input_tokens output_tokens (max 0 (min cached_tokens input_tokens))
     = estimate_cost yaml model input_tokens output_tokens cached_tokens"
  unfolding estimate_cost_def Let_def clamp_idem ..

subsection \<open>Evaluations used by the examples\<close>

lemma norm_gpt52: "normalize_model_name ''gpt-5.2'' = Inr (''openai'', ''gpt-5.2'')"
  by (simp add: normalize_model_name_def OPENAI_MODELS_def)

lemma norm_gemini_pro: "normalize_model_name ''gemini-pro'' = Inr (''google'', ''gemini-pro'')"
  by (simp add: normalize_model_name_def OPENAI_MODELS_def OPENAI_ALIASES_def GEMINI_MODELS_def)

lemma norm_gemini: "normalize_model_name ''gemini'' = Inr (''google'', ''gemini-3-flash-preview'')"
  by (simp add: normalize_model_name_def OPENAI_MODELS_def OPENAI_ALIASES_def GEMINI_MODELS_def
      GEMINI_ALIASES_def via_alias_def subscript_def)

lemma norm_claude:
  "normalize_model_name ''claude'' = Inr (''anthropic'', ''claude-sonnet-4-5-20250929'')"
  by (simp add: normalize_model_name_def OPENAI_MODELS_def OPENAI_ALIASES_def GEMINI_MODELS_def
      GEMINI_ALIASES_def CLAUDE_MODELS_def CLAUDE_ALIASES_def via_alias_def subscript_def)

lemma price_gpt52: "get_model_pricing Absent ''openai'' ''gpt-5.2'' = Some (price 1.75 14.00)"
  by (simp add: get_model_pricing_def load_pricing_def DEFAULT_PRICING_def)

lemma price_gemini:
  "get_model_pricing Absent ''google'' ''gemini-3-flash-preview'' = Some (price 0.075 0.30)"
  by (simp add: get_model_pricing_def load_pricing_def DEFAULT_PRICING_def)

lemma price_gemini_pro:
  "get_model_pricing Absent ''google'' ''gemini-pro'' = Some (price 0.50 1.50)"
  by (simp add: get_model_pricing_def load_pricing_def DEFAULT_PRICING_def)

lemma price_claude:
  "get_model_pricing Absent ''anthropic'' ''claude-sonnet-4-5-20250929'' = Some (price 3.00 15.00)"
  by (simp add: get_model_pricing_def load_pricing_def DEFAULT_PRICING_def)

lemma price_gemini_only_flash:
  "get_model_pricing
      (Loaded (map_of [(''google'', map_of [(''gemini-3-flash-preview'', price 0.075 0.30)])]))
      ''google'' ''gemini-pro'' = Some (price 0.075 0.30)"
  "get_model_pricing
      (Loaded (map_of [(''google'', map_of [(''gemini-3-flash-preview'', price 0.075 0.30)])]))
      ''google'' ''gemini-3-flash-preview'' = Some (price 0.075 0.30)"
  by (simp_all add: get_model_pricing_def load_pricing_def)

lemma tokens_hello: "estimate_tokens ''hello'' = 1"
  by (simp add: estimate_tokens_def CHARS_PER_TOKEN_def)

lemma tokens_23: "estimate_tokens ''hello how are you today'' = 5"
  by (simp add: estimate_tokens_def CHARS_PER_TOKEN_def)

lemma pro_in_gemini_pro: "contains ''pro'' (lower ''gemini-pro'')"
  by (simp add: lower_def lower_char_def)

lemma pro_not_in_gemini: "\<not> contains ''pro'' (lower ''gemini'')"
  by (simp add: lower_def lower_char_def)

lemma pro_not_in_claude: "\<not> contains ''pro'' (lower ''claude'')"
  by (simp add: lower_def lower_char_def)

lemma pro_not_in_gpt52: "\<not> contains ''pro'' (lower ''gpt-5.2'')"
  by (simp add: lower_def lower_char_def)

lemma zero_ratio: "(0::real) \<le> 0" "(0::real) \<le> 1"
  by simp_all

lemma tracker_claude:
  "map_sum id bd_is_estimated (tracker_estimate_cost_from_text ''claude'' ''hello'' 1000 0) = Inr True"
  by (simp add: tracker_estimate_cost_from_text_def tracker_estimate_cost_def PRICING_def
      CLAUDE_SONNET_PRICING_def Let_def)

subsection \<open>Cached input\<close>

text \<open>
  Claim C5. \<open>estimate_cost\<close> gives the same result for \<open>cached_tokens\<close> as for
  \<open>max(0, min(cached_tokens, input_tokens))\<close>, whatever \<open>cached_tokens\<close> is; in particular
  500 cached tokens of 100 input tokens cost what 100 cached tokens do. For
  \<open>input_tokens \<ge> 0\<close> the clamped value lies in \<open>[0, input_tokens]\<close> and the uncached count,
  \<open>input_tokens\<close> minus the clamped value, is not negative; this count and the clamped
  value are what the cost of a resolved model is computed from.
\<close>

theorem cached_tokens_clamped:
  "estimate_cost yaml model input_tokens output_tokens cached_tokens
     = estimate_cost yaml model input_tokens output_tokens (max 0 (min cached_tokens input_tokens))
   \<and> estimate_cost yaml model 100 0 500 = estimate_cost yaml model 100 0 100
   \<and> (0 \<le> input_tokens \<longrightarrow>
        0 \<le> max 0 (min cached_tokens input_tokens)
        \<and> max 0 (min cached_tokens input_tokens) \<le> input_tokens
        \<and> 0 \<le> input_tokens - max 0 (min cached_tokens input_tokens))
   \<and> (normalize_model_name model = Inr (provider, api_model)
        \<and> get_model_pricing yaml provider api_model = Some pricing \<and> pricing \<noteq> [] \<longrightarrow>
        estimate_cost yaml model input_tokens output_tokens cached_tokens =
          Inr (real_of_int (input_tokens - max 0 (min cached_tokens input_tokens)) / 1000000
                 * get_or (map_of pricing) ''input'' 0
               + real_of_int (max 0 (min cached_tokens input_tokens)) / 1000000
                 * (get_or (map_of pricing) ''input'' 0
                    * (1 - (if provider = ''google'' then 0.75 else 0.90)))
               + real_of_int output_tokens / 1000000 * get_or (map_of pricing) ''output'' 0))"
proof -
  have a: "estimate_cost yaml model 100 0 500 = estimate_cost yaml model 100 0 100"
    using estimate_cost_clamp [of yaml model 100 0 500] by simp
  show ?thesis
    using a by (auto simp add: estimate_cost_clamp estimate_cost_resolved)
qed

theorem cached_tokens_clamped_witness:
  "(0::int) \<le> 100
   \<and> normalize_model_name ''gpt-5.2'' = Inr (''openai'', ''gpt-5.2'')
   \<and> get_model_pricing Absent ''openai'' ''gpt-5.2'' = Some (price 1.75 14.00)
   \<and> price 1.75 14.00 \<noteq> []
   \<and> estimate_cost Absent ''gpt-5.2'' 100 0 500 = Inr 0.0000175
   \<and> estimate_cost Absent ''gpt-5.2'' 100 0 100 = Inr 0.0000175
   \<and> estimate_cost Absent ''gpt-5.2'' 100 0 (-7) = Inr 0.000175"
proof -
  note h = norm_gpt52 price_gpt52 price_nonempty [where a="1.75" and b="14.00"]
  have a: "estimate_cost Absent ''gpt-5.2'' 100 0 500 = Inr 0.0000175"
    using h cached_tokens_clamped [where yaml=Absent and model="''gpt-5.2''" and input_tokens=100
      and output_tokens=0 and cached_tokens=500 and provider="''openai''"
      and api_model="''gpt-5.2''" and pricing="price 1.75 14.00"]
    by (auto simp add: price_def get_or_def)
  have b: "estimate_cost Absent ''gpt-5.2'' 100 0 100 = Inr 0.0000175"
    using a cached_tokens_clamped [where yaml=Absent and model="''gpt-5.2''"] by auto
  have c: "estimate_cost Absent ''gpt-5.2'' 100 0 (-7) = Inr 0.000175"
    using h cached_tokens_clamped [where yaml=Absent and model="''gpt-5.2''" and input_tokens=100
      and output_tokens=0 and cached_tokens="-7" and provider="''openai''"
      and api_model="''gpt-5.2''" and pricing="price 1.75 14.00"]
    by (auto simp add: price_def get_or_def)
  show ?thesis using h a b c by simp
qed

subsection \<open>Estimates from text\<close>

lemma estimate_tokens_nonneg: "0 \<le> estimate_tokens text"
  by (simp add: estimate_tokens_def max_def)

lemma int_of_float_ratio:
  assumes "0 \<le> t" "0 \<le> r" "r \<le> 1"
  shows "int_of_float (real_of_int t * r) = \<lfloor>real_of_int t * r\<rfloor>"
    and "0 \<le> int_of_float (real_of_int t * r)"
    and "int_of_float (real_of_int t * r) \<le> t"
proof -
  have nn: "0 \<le> real_of_int t * r" using assms by simp
  then show eq: "int_of_float (real_of_int t * r) = \<lfloor>real_of_int t * r\<rfloor>"
    by (simp add: int_of_float_def)
  show "0 \<le> int_of_float (real_of_int t * r)" using nn unfolding eq by simp
  have "real_of_int t * r \<le> real_of_int t * 1"
    using assms by (intro mult_left_mono) simp_all
  then have "\<lfloor>real_of_int t * r\<rfloor> \<le> \<lfloor>real_of_int t\<rfloor>" by (intro floor_mono) simp
  then show "int_of_float (real_of_int t * r) \<le> t" unfolding eq by simp
qed

lemma from_text_Inr:
  "estimate_cost_from_text yaml model input_text expected_output_tokens cached_ratio = Inr b \<Longrightarrow>
   0 \<le> cached_ratio \<and> cached_ratio \<le> 1
   \<and> (\<exists>cost. estimate_cost yaml model (estimate_tokens input_text) expected_output_tokens
                 (int_of_float (real_of_int (estimate_tokens input_text) * cached_ratio)) = Inr cost
        \<and> b = \<lparr>bd_model = model,
                 bd_input_tokens = estimate_tokens input_text,
                 bd_output_tokens = expected_output_tokens,
                 bd_cached_tokens = int_of_float (real_of_int (estimate_tokens input_text) * cached_ratio),
                 bd_estimated_cost = cost,
                 bd_is_estimated = contains ''pro'' (lower model)\<rparr>)"
  unfolding estimate_cost_from_text_def Let_def
  by (cases "0 \<le> cached_ratio \<and> cached_ratio \<le> 1";
      cases "estimate_cost yaml model (estimate_tokens input_text) expected_output_tokens
                 (int_of_float (real_of_int (estimate_tokens input_text) * cached_ratio))")
     auto

lemma tracker_from_text_Inr:
  "tracker_estimate_cost_from_text model input_text expected_output_tokens cached_ratio = Inr b \<Longrightarrow>
   \<exists>pricing. PRICING model = Some pricing \<and> bd_is_estimated b = tp_is_estimated pricing"
  unfolding tracker_estimate_cost_from_text_def tracker_estimate_cost_def Let_def
  by (cases "0 \<le> cached_ratio \<and> cached_ratio \<le> 1"; cases "PRICING model") auto

lemma estimate_cost_from_text_resolved:
  assumes "0 \<le> cached_ratio" "cached_ratio \<le> 1"
    and "normalize_model_name model = Inr (provider, api_model)"
    and "get_model_pricing yaml provider api_model = Some pricing"
    and "pricing \<noteq> []"
  shows "estimate_cost_from_text yaml model input_text expected_output_tokens cached_ratio =
     Inr \<lparr>bd_model = model,
          bd_input_tokens = estimate_tokens input_text,
          bd_output_tokens = expected_output_tokens,
          bd_cached_tokens = \<lfloor>real_of_int (estimate_tokens input_text) * cached_ratio\<rfloor>,
          bd_estimated_cost =
            real_of_int (estimate_tokens input_text
                         - \<lfloor>real_of_int (estimate_tokens input_text) * cached_ratio\<rfloor>) / 1000000
              * get_or (map_of pricing) ''input'' 0
            + real_of_int \<lfloor>real_of_int (estimate_tokens input_text) * cached_ratio\<rfloor> / 1000000
              * (get_or (map_of pricing) ''input'' 0
                 * (1 - (if provider = ''google'' then 0.75 else 0.90)))
            + real_of_int expected_output_tokens / 1000000 * get_or (map_of pricing) ''output'' 0,
          bd_is_estimated = contains ''pro'' (lower model)\<rparr>"
proof -
  note f = int_of_float_ratio [OF estimate_tokens_nonneg assms(1,2), of input_text]
  have c: "max 0 (min \<lfloor>real_of_int (estimate_tokens input_text) * cached_ratio\<rfloor>
                   (estimate_tokens input_text))
           = \<lfloor>real_of_int (estimate_tokens input_text) * cached_ratio\<rfloor>"
    using f by (simp add: max_def min_def)
  show ?thesis
    unfolding estimate_cost_from_text_def Let_def f(1)
      estimate_cost_resolved [OF assms(3-5)] c
    using assms(1,2) by simp
qed

text \<open>
  Claim C7, as stated, fails for \<open>estimate_cost_from_text\<close> of costs.py: its flag is
  computed from the model name. With an override file whose \<open>google\<close> section has the
  default model only, the names \<open>gemini-pro\<close> and \<open>gemini\<close> resolve to the same price entry
  and get different flags. With the embedded defaults, \<open>claude\<close> is not flagged, while the
  table of cost_tracker.py marks the same model's prices as estimated and its
  \<open>estimate_cost_from_text\<close> returns that mark.
\<close>

theorem is_estimated_from_model_name:
  "get_model_pricing
      (Loaded (map_of [(''google'', map_of [(''gemini-3-flash-preview'', price 0.075 0.30)])]))
      ''google'' ''gemini-pro''
    = get_model_pricing
      (Loaded (map_of [(''google'', map_of [(''gemini-3-flash-preview'', price 0.075 0.30)])]))
      ''google'' ''gemini-3-flash-preview''
   \<and> map_sum id bd_is_estimated
       (estimate_cost_from_text
          (Loaded (map_of [(''google'', map_of [(''gemini-3-flash-preview'', price 0.075 0.30)])]))
          ''gemini-pro'' ''hello'' 1000 0) = Inr True
   \<and> map_sum id bd_is_estimated
       (estimate_cost_from_text
          (Loaded (map_of [(''google'', map_of [(''gemini-3-flash-preview'', price 0.075 0.30)])]))
          ''gemini'' ''hello'' 1000 0) = Inr False
   \<and> map_sum id bd_is_estimated (estimate_cost_from_text Absent ''claude'' ''hello'' 1000 0) = Inr False
   \<and> map_sum id bd_is_estimated (tracker_estimate_cost_from_text ''claude'' ''hello'' 1000 0) = Inr True"
proof -
  have a: "map_sum id bd_is_estimated
       (estimate_cost_from_text
          (Loaded (map_of [(''google'', map_of [(''gemini-3-flash-preview'', price 0.075 0.30)])]))
          ''gemini-pro'' ''hello'' 1000 0) = Inr True"
    unfolding estimate_cost_from_text_resolved
        [OF zero_ratio norm_gemini_pro price_gemini_only_flash(1) price_nonempty]
    using pro_in_gemini_pro by simp
  have b: "map_sum id bd_is_estimated
       (estimate_cost_from_text
          (Loaded (map_of [(''google'', map_of [(''gemini-3-flash-preview'', price 0.075 0.30)])]))
          ''gemini'' ''hello'' 1000 0) = Inr False"
    unfolding estimate_cost_from_text_resolved
        [OF zero_ratio norm_gemini price_gemini_only_flash(2) price_nonempty]
    using pro_not_in_gemini by simp
  have c: "map_sum id bd_is_estimated (estimate_cost_from_text Absent ''claude'' ''hello'' 1000 0) = Inr False"
    unfolding estimate_cost_from_text_resolved
        [OF zero_ratio norm_claude price_claude price_nonempty]
    using pro_not_in_claude by simp
  show ?thesis
    using a b c tracker_claude price_gemini_only_flash by simp
qed

text \<open>
  Claim C7, amended. In the breakdown returned by \<open>estimate_cost_from_text\<close> of costs.py,
  \<open>is_estimated\<close> says whether the lower-cased model name contains \<open>pro\<close> (the pricing
  store keeps no such flag). In the breakdown returned by \<open>estimate_cost_from_text\<close> of
  cost_tracker.py, \<open>is_estimated\<close> is the flag of the model's entry in \<open>PRICING\<close>, unchanged.
\<close>

theorem is_estimated_sources:
  "(estimate_cost_from_text yaml model input_text expected_output_tokens cached_ratio = Inr b
      \<longrightarrow> bd_is_estimated b = contains ''pro'' (lower model))
   \<and> (tracker_estimate_cost_from_text model input_text expected_output_tokens cached_ratio = Inr b'
      \<longrightarrow> (\<exists>pricing. PRICING model = Some pricing \<and> bd_is_estimated b' = tp_is_estimated pricing))"
  using from_text_Inr [of yaml model input_text expected_output_tokens cached_ratio b]
    tracker_from_text_Inr [of model input_text expected_output_tokens cached_ratio b']
  by auto

theorem is_estimated_sources_witness:
  "estimate_cost_from_text Absent ''gemini-pro'' ''hello'' 1000 0 =
     Inr \<lparr>bd_model = ''gemini-pro'', bd_input_tokens = 1, bd_output_tokens = 1000,
          bd_cached_tokens = 0, bd_estimated_cost = 0.0015005, bd_is_estimated = True\<rparr>
   \<and> contains ''pro'' (lower ''gemini-pro'')
   \<and> tracker_estimate_cost_from_text ''claude'' ''hello'' 1000 0 =
     Inr \<lparr>bd_model = ''claude'', bd_input_tokens = 1, bd_output_tokens = 1000,
          bd_cached_tokens = 0, bd_estimated_cost = 0.015003, bd_is_estimated = True\<rparr>
   \<and> PRICING ''claude'' = Some CLAUDE_SONNET_PRICING
   \<and> tp_is_estimated CLAUDE_SONNET_PRICING"
proof -
  have a: "estimate_cost_from_text Absent ''gemini-pro'' ''hello'' 1000 0 =
     Inr \<lparr>bd_model = ''gemini-pro'', bd_input_tokens = 1, bd_output_tokens = 1000,
          bd_cached_tokens = 0, bd_estimated_cost = 0.0015005, bd_is_estimated = True\<rparr>"
    unfolding estimate_cost_from_text_resolved
        [OF zero_ratio norm_gemini_pro price_gemini_pro price_nonempty]
    using pro_in_gemini_pro by (simp add: tokens_hello price_def get_or_def)
  have b: "tracker_estimate_cost_from_text ''claude'' ''hello'' 1000 0 =
     Inr \<lparr>bd_model = ''claude'', bd_input_tokens = 1, bd_output_tokens = 1000,
          bd_cached_tokens = 0, bd_estimated_cost = 0.015003, bd_is_estimated = True\<rparr>"
    by (simp add: tracker_estimate_cost_from_text_def tracker_estimate_cost_def PRICING_def
      CLAUDE_SONNET_PRICING_def Let_def tokens_hello int_of_float_def)
  have c: "PRICING ''claude'' = Some CLAUDE_SONNET_PRICING"
    by (simp add: PRICING_def)
  have d: "tp_is_estimated CLAUDE_SONNET_PRICING"
    by (simp add: CLAUDE_SONNET_PRICING_def)
  show ?thesis
    using a b c d pro_in_gemini_pro
      is_estimated_sources [where yaml=Absent and model="''gemini-pro''" and input_text="''hello''"
        and expected_output_tokens=1000 and cached_ratio=0]
      is_estimated_sources [where model="''claude''" and input_text="''hello''"
        and expected_output_tokens=1000 and cached_ratio=0]
    by simp
qed




section \<open>Properties of floating-point rounding\<close>

subsection \<open>Rounding\<close>

lemma round_half_even_of_int: "round_half_even (of_int m) = m"
  by (simp add: round_half_even_def)

lemma round_half_even_cases:
  "round_half_even y = \<lfloor>y\<rfloor> \<and> y - of_int \<lfloor>y\<rfloor> \<le> 1 / 2
   \<or> round_half_even y = \<lfloor>y\<rfloor> + 1 \<and> 1 / 2 \<le> y - of_int \<lfloor>y\<rfloor>"
  unfolding round_half_even_def Let_def by (simp add: not_less)

lemma round_half_even_near:
  "y - 1 / 2 \<le> of_int (round_half_even y)" "of_int (round_half_even y) \<le> y + 1 / 2"
proof -
  have b: "of_int \<lfloor>y\<rfloor> \<le> y" "y < of_int \<lfloor>y\<rfloor> + 1" by linarith+
  from round_half_even_cases [of y]
  have "y - 1 / 2 \<le> of_int (round_half_even y) \<and> of_int (round_half_even y) \<le> y + 1 / 2"
  proof (elim disjE conjE)
    assume e: "round_half_even y = \<lfloor>y\<rfloor>" and d: "y - of_int \<lfloor>y\<rfloor> \<le> 1 / 2"
    have "of_int (round_half_even y) = (of_int \<lfloor>y\<rfloor> :: real)" by (simp only: e)
    then show ?thesis using b d by linarith
  next
    assume e: "round_half_even y = \<lfloor>y\<rfloor> + 1" and d: "1 / 2 \<le> y - of_int \<lfloor>y\<rfloor>"
    have "of_int (round_half_even y) = (of_int \<lfloor>y\<rfloor> + 1 :: real)"
      by (simp only: e of_int_add of_int_1)
    then show ?thesis using b d by linarith
  qed
  then show "y - 1 / 2 \<le> of_int (round_half_even y)" "of_int (round_half_even y) \<le> y + 1 / 2"
    by blast+
qed

lemma powr_powi: "(2::real) powr real_of_int e = 2 powi e"
  by (simp add: powr_real_of_int')

lemma floor_log2_eqI:
  assumes "2 powi e \<le> \<bar>x\<bar>" "\<bar>x\<bar> < 2 powi (e + 1)"
  shows "\<lfloor>log 2 \<bar>x\<bar>\<rfloor> = e"
proof -
  have "(0::real) < 2 powi e" by simp
  then have pos: "0 < \<bar>x\<bar>" using assms(1) by (rule less_le_trans)
  have "(2::real) powr real_of_int (e + 1) = 2 powi (e + 1)" by (rule powr_powi)
  then have "(2::real) powr (real_of_int e + 1) = 2 powi (e + 1)" by simp
  then show ?thesis
    using assms floor_log_eq_powr_iff [of "\<bar>x\<bar>" 2 e] pos powr_powi [of e] by simp
qed

lemma floor_log2_bounds:
  assumes "x \<noteq> 0"
  shows "2 powi \<lfloor>log 2 \<bar>x\<bar>\<rfloor> \<le> \<bar>x\<bar>" "\<bar>x\<bar> < 2 powi (\<lfloor>log 2 \<bar>x\<bar>\<rfloor> + 1)"
proof -
  have pos: "0 < \<bar>x\<bar>" using assms by simp
  have "(2::real) powr real_of_int (\<lfloor>log 2 \<bar>x\<bar>\<rfloor> + 1) = 2 powi (\<lfloor>log 2 \<bar>x\<bar>\<rfloor> + 1)"
    by (rule powr_powi)
  then have "(2::real) powr (real_of_int \<lfloor>log 2 \<bar>x\<bar>\<rfloor> + 1) = 2 powi (\<lfloor>log 2 \<bar>x\<bar>\<rfloor> + 1)"
    by simp
  then show "2 powi \<lfloor>log 2 \<bar>x\<bar>\<rfloor> \<le> \<bar>x\<bar>" "\<bar>x\<bar> < 2 powi (\<lfloor>log 2 \<bar>x\<bar>\<rfloor> + 1)"
    using floor_log_eq_powr_iff [of "\<bar>x\<bar>" 2 "\<lfloor>log 2 \<bar>x\<bar>\<rfloor>"] pos
      powr_powi [of "\<lfloor>log 2 \<bar>x\<bar>\<rfloor>"] by simp_all
qed

lemma int_abs_bound:
  assumes "y - 1 / 2 \<le> of_int m" "of_int m \<le> y + 1 / 2" "\<bar>y\<bar> < real_of_int z"
  shows "\<bar>m\<bar> \<le> z"
proof -
  have "real_of_int m < real_of_int (z + 1)" "real_of_int (- z - 1) < real_of_int m"
    using assms by (simp_all add: abs_less_iff)
  then have "m < z + 1" "- z - 1 < m" by (simp_all only: of_int_less_iff)
  then show ?thesis by simp
qed

lemma nearest_double_0: "nearest_double 0 = 0"
  by (simp add: nearest_double_def)

lemma round_double_0: "round_double 0 = Finite 0"
  by (simp add: round_double_def nearest_double_0)

text \<open>Evaluation of a rounding in the normal range, given the binade of the argument.\<close>

lemma round_double_normal:
  assumes "2 powi e \<le> \<bar>x\<bar>" "\<bar>x\<bar> < 2 powi (e + 1)" "- 1022 \<le> e" "e \<le> 1022"
    and "round_half_even (x / 2 powi (e - 52)) = m"
  shows "round_double x = Finite (of_int m * 2 powi (e - 52))"
proof -
  have "(0::real) < 2 powi e" by simp
  then have "0 < \<bar>x\<bar>" using assms(1) by (rule less_le_trans)
  then have x0: "x \<noteq> 0" by simp
  have k: "ulp_exponent x = e - 52"
    using floor_log2_eqI [OF assms(1,2)] assms(3) by (simp add: ulp_exponent_def)
  have n: "nearest_double x = of_int m * 2 powi (e - 52)"
    using x0 assms(5) by (simp add: nearest_double_def k)
  have q: "(0::real) < 2 powi (e - 52)" by simp
  have "\<bar>x / 2 powi (e - 52)\<bar> = \<bar>x\<bar> / 2 powi (e - 52)"
    by (simp add: abs_divide)
  also have "\<dots> < 2 powi (e + 1) / 2 powi (e - 52)"
    using assms(2) q by (rule divide_strict_right_mono)
  also have "(2::real) powi (e + 1) / 2 powi (e - 52) = 2 powi 53"
    by (simp add: power_int_diff [symmetric])
  finally have "\<bar>x / 2 powi (e - 52)\<bar> < real_of_int (2 ^ 53)" by simp
  from int_abs_bound [OF round_half_even_near [of "x / 2 powi (e - 52)", unfolded assms(5)] this]
  have "\<bar>m\<bar> \<le> 2 ^ 53" .
  then have "real_of_int \<bar>m\<bar> \<le> real_of_int (2 ^ 53)" by (simp only: of_int_le_iff)
  then have m: "\<bar>real_of_int m\<bar> \<le> 2 ^ 53" by simp
  have "\<bar>real_of_int m * 2 powi (e - 52)\<bar> = \<bar>real_of_int m\<bar> * 2 powi (e - 52)"
    by (simp add: abs_mult)
  also have "\<dots> \<le> 2 ^ 53 * 2 powi (e - 52)"
    using m by (intro mult_right_mono) simp_all
  also have "(2::real) ^ 53 * 2 powi (e - 52) = 2 powi (e + 1)"
  proof -
    have "(2::real) powi (53 + (e - 52)) = 2 powi 53 * 2 powi (e - 52)"
      by (rule power_int_add) simp
    moreover have "53 + (e - 52) = e + 1" by simp
    ultimately show ?thesis by simp
  qed
  also have "\<dots> \<le> 2 powi 1023"
    using assms(4) by (intro power_int_increasing) simp_all
  also have "\<dots> < 2 ^ 1024" by simp
  finally have "\<bar>real_of_int m * 2 powi (e - 52)\<bar> < 2 ^ 1024" .
  then show ?thesis
    by (auto simp add: round_double_def n Let_def)
qed

lemma fmul_normal:
  assumes "2 powi e \<le> \<bar>a * b\<bar>" "\<bar>a * b\<bar> < 2 powi (e + 1)" "- 1022 \<le> e" "e \<le> 1022"
    and "round_half_even (a * b / 2 powi (e - 52)) = m"
  shows "fmul (Finite a) (Finite b) = Finite (of_int m * 2 powi (e - 52))"
  using round_double_normal [OF assms] by simp

lemma fadd_normal:
  assumes "2 powi e \<le> \<bar>a + b\<bar>" "\<bar>a + b\<bar> < 2 powi (e + 1)" "- 1022 \<le> e" "e \<le> 1022"
    and "round_half_even ((a + b) / 2 powi (e - 52)) = m"
  shows "fadd (Finite a) (Finite b) = Finite (of_int m * 2 powi (e - 52))"
  using round_double_normal [OF assms] by simp

lemma fsub_normal:
  assumes "2 powi e \<le> \<bar>a - b\<bar>" "\<bar>a - b\<bar> < 2 powi (e + 1)" "- 1022 \<le> e" "e \<le> 1022"
    and "round_half_even ((a - b) / 2 powi (e - 52)) = m"
  shows "fsub (Finite a) (Finite b) = Finite (of_int m * 2 powi (e - 52))"
  using round_double_normal [of e "a - b" m] assms by (simp add: fsub_def)

lemma truediv_normal:
  assumes "b \<noteq> 0"
    and "2 powi e \<le> \<bar>real_of_int a / real_of_int b\<bar>"
    and "\<bar>real_of_int a / real_of_int b\<bar> < 2 powi (e + 1)" "- 1022 \<le> e" "e \<le> 1022"
    and "round_half_even (real_of_int a / real_of_int b / 2 powi (e - 52)) = m"
  shows "truediv a b = Inr (Finite (of_int m * 2 powi (e - 52)))"
  using round_double_normal [OF assms(2-6)] assms(1) by (simp add: truediv_def)

lemma truediv_0: "b \<noteq> 0 \<Longrightarrow> truediv 0 b = Inr (Finite 0)"
  by (simp add: truediv_def round_double_0)

lemma fmul_0_left: "fmul (Finite 0) (Finite b) = Finite 0"
  by (simp add: round_double_0)

subsection \<open>Rounding is monotone on the grid\<close>

lemma round_half_even_ge_int:
  assumes "of_int n \<le> y"
  shows "n \<le> round_half_even y"
proof -
  have "real_of_int n < of_int (round_half_even y) + 1"
    using round_half_even_near(1) [of y] assms by linarith
  then have "real_of_int n < of_int (round_half_even y + 1)" by simp
  then have "n < round_half_even y + 1" by (simp only: of_int_less_iff)
  then show ?thesis by simp
qed

lemma round_half_even_le_int:
  assumes "y \<le> of_int n"
  shows "round_half_even y \<le> n"
proof -
  have "real_of_int (round_half_even y) < of_int n + 1"
    using round_half_even_near(2) [of y] assms by linarith
  then have "real_of_int (round_half_even y) < of_int (n + 1)" by simp
  then have "round_half_even y < n + 1" by (simp only: of_int_less_iff)
  then show ?thesis by simp
qed

lemma grid_point:
  assumes "k \<le> j"
  shows "real_of_int n * 2 powi j = real_of_int (n * 2 ^ nat (j - k)) * 2 powi k"
proof -
  have "(2::real) powi ((j - k) + k) = 2 powi (j - k) * 2 powi k"
    by (rule power_int_add) simp
  moreover have "(j - k) + k = j" by simp
  moreover have "(2::real) powi (j - k) = 2 ^ nat (j - k)"
    using assms by (simp add: power_int_def)
  ultimately have "(2::real) powi j = 2 ^ nat (j - k) * 2 powi k" by simp
  then show ?thesis by simp
qed

lemma nearest_double_le:
  assumes "x \<le> of_int n * 2 powi j" "ulp_exponent x \<le> j"
  shows "nearest_double x \<le> of_int n * 2 powi j"
proof (cases "x = 0")
  case True
  then show ?thesis using assms(1) by (simp add: nearest_double_0)
next
  case False
  define k where "k = ulp_exponent x"
  define N where "N = n * 2 ^ nat (j - k)"
  have q: "(0::real) < 2 powi k" by simp
  have g: "real_of_int n * 2 powi j = real_of_int N * 2 powi k"
    unfolding N_def using assms(2) by (intro grid_point) (simp add: k_def)
  have "x / 2 powi k \<le> real_of_int N * 2 powi k / 2 powi k"
    using assms(1) q unfolding g by (intro divide_right_mono) simp_all
  then have "x / 2 powi k \<le> real_of_int N" by simp
  then have "round_half_even (x / 2 powi k) \<le> N" by (rule round_half_even_le_int)
  then have "real_of_int (round_half_even (x / 2 powi k)) \<le> real_of_int N"
    by (simp only: of_int_le_iff)
  then have "real_of_int (round_half_even (x / 2 powi k)) * 2 powi k \<le> real_of_int N * 2 powi k"
    using q by (intro mult_right_mono) simp_all
  then show ?thesis
    using False unfolding g by (simp add: nearest_double_def k_def)
qed

lemma nearest_double_ge:
  assumes "of_int n * 2 powi j \<le> x" "ulp_exponent x \<le> j"
  shows "of_int n * 2 powi j \<le> nearest_double x"
proof (cases "x = 0")
  case True
  then show ?thesis using assms(1) by (simp add: nearest_double_0)
next
  case False
  define k where "k = ulp_exponent x"
  define N where "N = n * 2 ^ nat (j - k)"
  have q: "(0::real) < 2 powi k" by simp
  have g: "real_of_int n * 2 powi j = real_of_int N * 2 powi k"
    unfolding N_def using assms(2) by (intro grid_point) (simp add: k_def)
  have "real_of_int N * 2 powi k / 2 powi k \<le> x / 2 powi k"
    using assms(1) q unfolding g by (intro divide_right_mono) simp_all
  then have "real_of_int N \<le> x / 2 powi k" by simp
  then have "N \<le> round_half_even (x / 2 powi k)" by (rule round_half_even_ge_int)
  then have "real_of_int N \<le> real_of_int (round_half_even (x / 2 powi k))"
    by (simp only: of_int_le_iff)
  then have "real_of_int N * 2 powi k \<le> real_of_int (round_half_even (x / 2 powi k)) * 2 powi k"
    using q by (intro mult_right_mono) simp_all
  then show ?thesis
    using False unfolding g by (simp add: nearest_double_def k_def)
qed

lemma nearest_double_exact:
  assumes "x = of_int n * 2 powi j" "ulp_exponent x \<le> j"
  shows "nearest_double x = x"
proof -
  have "nearest_double x \<le> of_int n * 2 powi j"
    using assms by (intro nearest_double_le) simp_all
  moreover have "of_int n * 2 powi j \<le> nearest_double x"
    using assms by (intro nearest_double_ge) simp_all
  ultimately show ?thesis using assms(1) by simp
qed

subsection \<open>The exponent of a number below or above a power of two\<close>

lemma powi_le_cancel:
  assumes "(2::real) powi a \<le> 2 powi b"
  shows "a \<le> b"
proof (rule ccontr)
  assume "\<not> a \<le> b"
  then have "b < a" by simp
  then have "(2::real) powi b < 2 powi a" by (intro power_int_strict_increasing) simp_all
  then show False using assms by simp
qed

lemma powi_less_cancel:
  assumes "(2::real) powi a < 2 powi b"
  shows "a < b"
proof (rule ccontr)
  assume "\<not> a < b"
  then have "b \<le> a" by simp
  then have "(2::real) powi b \<le> 2 powi a" by (intro power_int_increasing) simp_all
  then show False using assms by simp
qed

lemma floor_log2_le:
  assumes "x \<noteq> 0" "\<bar>x\<bar> \<le> 2 powi j"
  shows "\<lfloor>log 2 \<bar>x\<bar>\<rfloor> \<le> j"
proof -
  have "2 powi \<lfloor>log 2 \<bar>x\<bar>\<rfloor> \<le> (2::real) powi j"
    using floor_log2_bounds(1) [OF assms(1)] assms(2) by (rule order_trans)
  then show ?thesis by (rule powi_le_cancel)
qed

lemma floor_log2_less:
  assumes "x \<noteq> 0" "\<bar>x\<bar> < 2 powi j"
  shows "\<lfloor>log 2 \<bar>x\<bar>\<rfloor> < j"
proof -
  have "2 powi \<lfloor>log 2 \<bar>x\<bar>\<rfloor> < (2::real) powi j"
    using floor_log2_bounds(1) [OF assms(1)] assms(2) by (rule le_less_trans)
  then show ?thesis by (rule powi_less_cancel)
qed

lemma floor_log2_ge:
  assumes "2 powi j \<le> \<bar>x\<bar>"
  shows "j \<le> \<lfloor>log 2 \<bar>x\<bar>\<rfloor>"
proof -
  have "(0::real) < 2 powi j" by simp
  then have "0 < \<bar>x\<bar>" using assms by (rule less_le_trans)
  then have x0: "x \<noteq> 0" by simp
  have "(2::real) powi j < 2 powi (\<lfloor>log 2 \<bar>x\<bar>\<rfloor> + 1)"
    using assms floor_log2_bounds(2) [OF x0] by (rule le_less_trans)
  then have "j < \<lfloor>log 2 \<bar>x\<bar>\<rfloor> + 1" by (rule powi_less_cancel)
  then show ?thesis by simp
qed

lemma ulp_exponent_le:
  assumes "x \<noteq> 0" "\<bar>x\<bar> \<le> 2 powi j" "- 1022 \<le> j"
  shows "ulp_exponent x \<le> j - 52"
  using floor_log2_le [OF assms(1,2)] assms(3) by (simp add: ulp_exponent_def)

lemma ulp_exponent_less:
  assumes "x \<noteq> 0" "\<bar>x\<bar> < 2 powi j" "- 1021 \<le> j"
  shows "ulp_exponent x \<le> j - 53"
  using floor_log2_less [OF assms(1,2)] assms(3) by (simp add: ulp_exponent_def)

subsection \<open>Bounds that rounding keeps\<close>

lemma nearest_double_abs_le:
  assumes "\<bar>x\<bar> \<le> 2 powi j" "- 1074 \<le> j"
  shows "\<bar>nearest_double x\<bar> \<le> 2 powi j"
proof (cases "x = 0")
  case True
  then show ?thesis by (simp add: nearest_double_0)
next
  case False
  have "\<lfloor>log 2 \<bar>x\<bar>\<rfloor> \<le> j" using False assms(1) by (rule floor_log2_le)
  then have k: "ulp_exponent x \<le> j" using assms(2) by (simp add: ulp_exponent_def)
  have b: "x \<le> real_of_int 1 * 2 powi j" "real_of_int (- 1) * 2 powi j \<le> x"
    using assms(1) by (simp_all add: abs_le_iff)
  have "nearest_double x \<le> real_of_int 1 * 2 powi j"
    using b(1) k by (rule nearest_double_le)
  moreover have "real_of_int (- 1) * 2 powi j \<le> nearest_double x"
    using b(2) k by (rule nearest_double_ge)
  ultimately show ?thesis by (intro abs_leI) simp_all
qed

lemma nearest_double_nonneg:
  assumes "0 \<le> x"
  shows "0 \<le> nearest_double x"
proof (cases "x = 0")
  case True
  then show ?thesis by (simp add: nearest_double_0)
next
  case False
  have "real_of_int 0 * 2 powi ulp_exponent x \<le> nearest_double x"
    using assms by (intro nearest_double_ge) simp_all
  then show ?thesis by simp
qed

lemma nearest_double_nonpos:
  assumes "x \<le> 0"
  shows "nearest_double x \<le> 0"
proof -
  have "nearest_double x \<le> real_of_int 0 * 2 powi ulp_exponent x"
    using assms by (intro nearest_double_le) simp_all
  then show ?thesis by simp
qed

lemma round_double_finite:
  assumes "\<bar>x\<bar> \<le> 2 powi 1023"
  shows "round_double x = Finite (nearest_double x)"
proof -
  have "\<bar>nearest_double x\<bar> \<le> 2 powi 1023"
    using assms by (intro nearest_double_abs_le) simp_all
  moreover have "(2::real) powi 1023 < 2 ^ 1024" by simp
  ultimately have "\<bar>nearest_double x\<bar> < 2 ^ 1024" by (rule le_less_trans)
  then show ?thesis by (auto simp add: round_double_def Let_def)
qed

lemma nearest_double_ge_pow:
  assumes "2 powi j \<le> x" "- 1074 \<le> j"
  shows "2 powi j \<le> nearest_double x"
proof -
  have "(0::real) < 2 powi j" by simp
  then have xp: "0 < x" using assms(1) by (rule less_le_trans)
  then have x0: "x \<noteq> 0" and ax: "\<bar>x\<bar> = x" by simp_all
  define e where "e = \<lfloor>log 2 \<bar>x\<bar>\<rfloor>"
  have je: "j \<le> e" unfolding e_def using assms(1) ax by (intro floor_log2_ge) simp
  show ?thesis
  proof (cases "ulp_exponent x \<le> j")
    case True
    have "real_of_int 1 * 2 powi j \<le> nearest_double x"
      using assms(1) True by (intro nearest_double_ge) simp_all
    then show ?thesis by simp
  next
    case False
    then have u: "ulp_exponent x = e - 52" "- 1022 \<le> e"
      using assms(2) by (simp_all add: ulp_exponent_def e_def max_def split: if_splits)
    have "2 powi e \<le> x"
      using floor_log2_bounds(1) [OF x0] ax by (simp add: e_def)
    then have "real_of_int 1 * 2 powi e \<le> nearest_double x"
      using u by (intro nearest_double_ge) simp_all
    moreover have "(2::real) powi j \<le> 2 powi e"
      using je by (intro power_int_increasing) simp_all
    ultimately show ?thesis by simp
  qed
qed

lemma round_double_overflow:
  assumes "2 ^ 1024 \<le> x"
  shows "round_double x = PosInf"
proof -
  have "(2::real) powi 1024 \<le> x" using assms by simp
  then have "2 powi 1024 \<le> nearest_double x"
    by (intro nearest_double_ge_pow) simp_all
  then show ?thesis by (simp add: round_double_def Let_def)
qed

subsection \<open>A double rounds to itself\<close>

lemma nearest_double_idem: "nearest_double (nearest_double x) = nearest_double x"
proof (cases "x = 0")
  case True
  then show ?thesis by (simp add: nearest_double_0)
next
  case False
  define E where "E = max \<lfloor>log 2 \<bar>x\<bar>\<rfloor> (- 1022)"
  define y where "y = nearest_double x"
  have k: "ulp_exponent x = E - 52" by (simp add: ulp_exponent_def E_def)
  have E: "- 1022 \<le> E" by (simp add: E_def)
  have "\<bar>x\<bar> < 2 powi (\<lfloor>log 2 \<bar>x\<bar>\<rfloor> + 1)" using False by (rule floor_log2_bounds(2))
  also have "\<dots> \<le> 2 powi (E + 1)"
    by (intro power_int_increasing) (simp_all add: E_def)
  finally have xb: "\<bar>x\<bar> \<le> 2 powi (E + 1)" by simp
  have yb: "\<bar>y\<bar> \<le> 2 powi (E + 1)"
    unfolding y_def using xb E by (intro nearest_double_abs_le) simp_all
  have yg: "y = real_of_int (round_half_even (x / 2 powi (E - 52))) * 2 powi (E - 52)"
    using False by (simp add: y_def nearest_double_def k)
  show ?thesis
  proof (cases "y = 0")
    case True
    then show ?thesis by (simp add: y_def [symmetric] nearest_double_0)
  next
    case y0: False
    show ?thesis
    proof (cases "\<bar>y\<bar> < 2 powi (E + 1)")
      case True
      have "ulp_exponent y \<le> (E + 1) - 53"
        using y0 True E by (intro ulp_exponent_less) simp_all
      then have "ulp_exponent y \<le> E - 52" by simp
      with yg have "nearest_double y = y" by (rule nearest_double_exact)
      then show ?thesis by (simp add: y_def)
    next
      case False
      with yb have "\<bar>y\<bar> = 2 powi (E + 1)" by simp
      then have "y = real_of_int 1 * 2 powi (E + 1) \<or> y = real_of_int (- 1) * 2 powi (E + 1)"
        by (simp add: abs_if split: if_splits)
      moreover have "ulp_exponent y \<le> E + 1"
        using ulp_exponent_le [OF y0 yb] E by simp
      ultimately have "nearest_double y = y"
        by (elim disjE) (rule nearest_double_exact, assumption, assumption)+
      then show ?thesis by (simp add: y_def)
    qed
  qed
qed

lemma round_double_idem:
  assumes "round_double x = Finite y"
  shows "round_double y = Finite y"
proof -
  have y: "y = nearest_double x" and b: "\<not> 2 ^ 1024 \<le> y" "\<not> y \<le> - (2 ^ 1024)"
    using assms by (simp_all add: round_double_def Let_def split: if_splits)
  have "nearest_double y = y" unfolding y by (rule nearest_double_idem)
  then show ?thesis using b by (simp add: round_double_def Let_def)
qed

lemma fadd_0_round_double: "fadd (Finite 0) (round_double x) = round_double x"
proof (cases "round_double x")
  case (Finite y)
  then show ?thesis using round_double_idem [OF Finite] by simp
qed simp_all

lemma fadd_0_fmul: "fadd (Finite 0) (fmul a b) = fmul a b"
proof (cases a; cases b)
  fix x y
  assume "a = Finite x" "b = Finite y"
  then show ?thesis by (simp only: fmul.simps fadd_0_round_double)
qed simp_all

subsection \<open>The error of one rounding\<close>

lemma nearest_double_error_ulp:
  assumes "x \<noteq> 0"
  shows "\<bar>nearest_double x - x\<bar> \<le> 2 powi ulp_exponent x / 2"
proof -
  define q :: real where "q = 2 powi ulp_exponent x"
  define m where "m = round_half_even (x / q)"
  have q: "0 < q" by (simp add: q_def)
  have "x / q - 1 / 2 \<le> of_int m" "of_int m \<le> x / q + 1 / 2"
    unfolding m_def by (rule round_half_even_near)+
  then have "\<bar>of_int m - x / q\<bar> \<le> 1 / 2" by (intro abs_leI) linarith+
  then have "\<bar>of_int m - x / q\<bar> * q \<le> 1 / 2 * q"
    using q by (intro mult_right_mono) simp_all
  moreover have "\<bar>of_int m - x / q\<bar> * q = \<bar>of_int m * q - x\<bar>"
  proof -
    have "\<bar>of_int m - x / q\<bar> * q = \<bar>(of_int m - x / q) * q\<bar>"
      using q by (simp add: abs_mult)
    also have "(of_int m - x / q) * q = of_int m * q - x"
      using q by (simp add: algebra_simps)
    finally show ?thesis .
  qed
  ultimately have "\<bar>of_int m * q - x\<bar> \<le> q / 2" by simp
  then show ?thesis
    using assms by (simp add: nearest_double_def m_def q_def)
qed

lemma nearest_double_error:
  assumes "2 powi (- 1022) \<le> \<bar>x\<bar>"
  shows "\<bar>nearest_double x - x\<bar> \<le> \<bar>x\<bar> / 2 ^ 53"
proof -
  have "(0::real) < 2 powi (- 1022)" by simp
  then have "0 < \<bar>x\<bar>" using assms by (rule less_le_trans)
  then have x0: "x \<noteq> 0" by simp
  define e where "e = \<lfloor>log 2 \<bar>x\<bar>\<rfloor>"
  have e: "- 1022 \<le> e" unfolding e_def using assms by (rule floor_log2_ge)
  then have k: "ulp_exponent x = e - 52" by (simp add: ulp_exponent_def e_def)
  have "(2::real) powi ((e - 52) + 52) = 2 powi (e - 52) * 2 powi 52"
    by (rule power_int_add) simp
  moreover have "(e - 52) + 52 = e" by simp
  ultimately have "(2::real) powi e = 2 powi (e - 52) * 2 ^ 52" by simp
  then have "(2::real) powi (e - 52) / 2 = 2 powi e / 2 ^ 53" by simp
  moreover have "2 powi e / 2 ^ 53 \<le> \<bar>x\<bar> / 2 ^ 53"
    using floor_log2_bounds(1) [OF x0] by (intro divide_right_mono) (simp_all add: e_def)
  ultimately show ?thesis
    using nearest_double_error_ulp [OF x0] by (simp add: k)
qed

subsection \<open>Accumulated rounding error\<close>

text \<open>
  \<open>y\<close> agrees with \<open>x\<close> up to \<open>k\<close> roundings when
  \<open>\<bar>y - x\<bar> \<le> ((1 + 1 / 2 ^ 53) ^ k - 1) * \<bar>x\<bar>\<close>.
\<close>

lemma roundings_nonneg: "0 \<le> ((1::real) + 1 / 2 ^ 53) ^ k - 1"
proof -
  have "(1::real) \<le> (1 + 1 / 2 ^ 53) ^ k" by (rule one_le_power) simp
  then show ?thesis by simp
qed

lemma roundings_mono:
  assumes "i \<le> j"
  shows "((1::real) + 1 / 2 ^ 53) ^ i - 1 \<le> (1 + 1 / 2 ^ 53) ^ j - 1"
proof -
  have "((1::real) + 1 / 2 ^ 53) ^ i \<le> (1 + 1 / 2 ^ 53) ^ j"
    using assms by (intro power_increasing) simp_all
  then show ?thesis by simp
qed

lemma roundings_16: "((1::real) + 1 / 2 ^ 53) ^ 16 - 1 \<le> 1 / 2"
  by (simp add: field_simps)

lemma roundings_small:
  assumes "k \<le> 16"
  shows "((1::real) + 1 / 2 ^ 53) ^ k - 1 \<le> 1 / 2"
  using roundings_mono [OF assms] roundings_16 by (rule order_trans)

lemma roundings_15: "((1::real) + 1 / 2 ^ 53) ^ 15 - 1 \<le> 1 / 2 ^ 49"
  by (simp add: field_simps)

lemma roundings_9: "9 / 2 ^ 53 \<le> ((1::real) + 1 / 2 ^ 53) ^ 9 - 1"
  by (simp add: field_simps)

lemma rel_refl: "\<bar>x - x\<bar> \<le> (((1::real) + 1 / 2 ^ 53) ^ 0 - 1) * \<bar>x\<bar>"
  by simp

lemma rel_mono:
  assumes "\<bar>y - x\<bar> \<le> ((1 + 1 / 2 ^ 53) ^ i - 1) * \<bar>x\<bar>" "i \<le> j"
  shows "\<bar>y - x\<bar> \<le> ((1 + 1 / 2 ^ 53) ^ j - 1) * \<bar>x :: real\<bar>"
proof -
  have "((1 + 1 / 2 ^ 53) ^ i - 1) * \<bar>x\<bar> \<le> ((1 + 1 / 2 ^ 53) ^ j - 1) * \<bar>x\<bar>"
    using roundings_mono [OF assms(2)] by (intro mult_right_mono) simp_all
  with assms(1) show ?thesis by (rule order_trans)
qed

lemma rel_mult:
  fixes x1 x2 y1 y2 :: real
  assumes "\<bar>y1 - x1\<bar> \<le> ((1 + 1 / 2 ^ 53) ^ i - 1) * \<bar>x1\<bar>"
    and "\<bar>y2 - x2\<bar> \<le> ((1 + 1 / 2 ^ 53) ^ j - 1) * \<bar>x2\<bar>"
  shows "\<bar>y1 * y2 - x1 * x2\<bar> \<le> ((1 + 1 / 2 ^ 53) ^ (i + j) - 1) * \<bar>x1 * x2\<bar>"
proof -
  define a :: real where "a = (1 + 1 / 2 ^ 53) ^ i - 1"
  define b :: real where "b = (1 + 1 / 2 ^ 53) ^ j - 1"
  have a0: "0 \<le> a" and b0: "0 \<le> b" unfolding a_def b_def by (rule roundings_nonneg)+
  have d1: "\<bar>y1 - x1\<bar> \<le> a * \<bar>x1\<bar>" and d2: "\<bar>y2 - x2\<bar> \<le> b * \<bar>x2\<bar>"
    using assms by (simp_all add: a_def b_def)
  have s: "y1 * y2 - x1 * x2 = (y1 - x1) * x2 + x1 * (y2 - x2) + (y1 - x1) * (y2 - x2)"
    by (simp add: algebra_simps)
  have "\<bar>y1 * y2 - x1 * x2\<bar>
          \<le> \<bar>(y1 - x1) * x2\<bar> + \<bar>x1 * (y2 - x2)\<bar> + \<bar>(y1 - x1) * (y2 - x2)\<bar>"
    unfolding s
    using abs_triangle_ineq [of "(y1 - x1) * x2 + x1 * (y2 - x2)" "(y1 - x1) * (y2 - x2)"]
      abs_triangle_ineq [of "(y1 - x1) * x2" "x1 * (y2 - x2)"]
    by linarith
  also have "\<dots> = \<bar>y1 - x1\<bar> * \<bar>x2\<bar> + \<bar>x1\<bar> * \<bar>y2 - x2\<bar> + \<bar>y1 - x1\<bar> * \<bar>y2 - x2\<bar>"
    by (simp only: abs_mult)
  also have "\<dots> \<le> a * \<bar>x1\<bar> * \<bar>x2\<bar> + \<bar>x1\<bar> * (b * \<bar>x2\<bar>) + a * \<bar>x1\<bar> * (b * \<bar>x2\<bar>)"
  proof -
    have "\<bar>y1 - x1\<bar> * \<bar>x2\<bar> \<le> a * \<bar>x1\<bar> * \<bar>x2\<bar>"
      using d1 by (intro mult_right_mono) simp_all
    moreover have "\<bar>x1\<bar> * \<bar>y2 - x2\<bar> \<le> \<bar>x1\<bar> * (b * \<bar>x2\<bar>)"
      using d2 by (intro mult_left_mono) simp_all
    moreover have "\<bar>y1 - x1\<bar> * \<bar>y2 - x2\<bar> \<le> a * \<bar>x1\<bar> * (b * \<bar>x2\<bar>)"
      using d1 d2 a0 by (intro mult_mono) simp_all
    ultimately show ?thesis by linarith
  qed
  also have "\<dots> = (a + b + a * b) * \<bar>x1 * x2\<bar>"
    by (simp add: abs_mult algebra_simps)
  also have "a + b + a * b = (1 + 1 / 2 ^ 53) ^ (i + j) - 1"
    by (simp add: a_def b_def power_add algebra_simps)
  finally show ?thesis .
qed

lemma rel_add:
  fixes x1 x2 y1 y2 :: real
  assumes "\<bar>y1 - x1\<bar> \<le> ((1 + 1 / 2 ^ 53) ^ k - 1) * \<bar>x1\<bar>"
    and "\<bar>y2 - x2\<bar> \<le> ((1 + 1 / 2 ^ 53) ^ k - 1) * \<bar>x2\<bar>"
    and "0 \<le> x1" "0 \<le> x2"
  shows "\<bar>(y1 + y2) - (x1 + x2)\<bar> \<le> ((1 + 1 / 2 ^ 53) ^ k - 1) * \<bar>x1 + x2\<bar>"
proof -
  define a :: real where "a = (1 + 1 / 2 ^ 53) ^ k - 1"
  have d: "\<bar>y1 - x1\<bar> \<le> a * x1" "\<bar>y2 - x2\<bar> \<le> a * x2"
    using assms by (simp_all add: a_def)
  have "\<bar>(y1 + y2) - (x1 + x2)\<bar> \<le> \<bar>y1 - x1\<bar> + \<bar>y2 - x2\<bar>" by linarith
  also have "\<dots> \<le> a * x1 + a * x2" using d by linarith
  also have "\<dots> = a * \<bar>x1 + x2\<bar>" using assms(3,4) by (simp add: algebra_simps)
  finally show ?thesis by (simp add: a_def)
qed

lemma rel_one_minus:
  fixes d d' :: real
  assumes "\<bar>d' - d\<bar> \<le> ((1 + 1 / 2 ^ 53) ^ 1 - 1) * \<bar>d\<bar>" "0 \<le> d" "d \<le> 9 / 10"
  shows "\<bar>(1 - d') - (1 - d)\<bar> \<le> ((1 + 1 / 2 ^ 53) ^ 9 - 1) * \<bar>1 - d\<bar>"
proof -
  have "\<bar>(1 - d') - (1 - d)\<bar> = \<bar>d' - d\<bar>" by linarith
  also have "\<dots> \<le> 1 / 2 ^ 53 * d" using assms(1,2) by simp
  also have "\<dots> \<le> 1 / 2 ^ 53 * (9 * (1 - d))"
    using assms(3) by (intro mult_left_mono) simp_all
  also have "\<dots> = 9 / 2 ^ 53 * \<bar>1 - d\<bar>" using assms(3) by simp
  also have "\<dots> \<le> ((1 + 1 / 2 ^ 53) ^ 9 - 1) * \<bar>1 - d\<bar>"
    using roundings_9 by (intro mult_right_mono) simp_all
  finally show ?thesis .
qed

text \<open>One rounding more, for a number in the normal range or zero.\<close>

lemma rel_round:
  fixes x y :: real
  assumes rel: "\<bar>y - x\<bar> \<le> ((1 + 1 / 2 ^ 53) ^ k - 1) * \<bar>x\<bar>"
    and k: "k \<le> 16"
    and range: "x = 0 \<or> (2 powi a \<le> \<bar>x\<bar> \<and> \<bar>x\<bar> \<le> 2 powi b)"
    and a: "- 1021 \<le> a" and b: "b \<le> 1022"
  shows "round_double y = Finite (nearest_double y)"
    and "\<bar>nearest_double y - x\<bar> \<le> ((1 + 1 / 2 ^ 53) ^ Suc k - 1) * \<bar>x\<bar>"
proof -
  define c :: real where "c = (1 + 1 / 2 ^ 53) ^ k - 1"
  have c0: "0 \<le> c" unfolding c_def by (rule roundings_nonneg)
  have c1: "c \<le> 1 / 2" unfolding c_def using k by (rule roundings_small)
  have d: "\<bar>y - x\<bar> \<le> c * \<bar>x\<bar>" using rel by (simp add: c_def)
  have "c * \<bar>x\<bar> \<le> 1 / 2 * \<bar>x\<bar>" using c1 by (intro mult_right_mono) simp_all
  with d have h: "\<bar>y - x\<bar> \<le> \<bar>x\<bar> / 2" by simp
  have up: "\<bar>y\<bar> \<le> 2 * \<bar>x\<bar>" and lo: "\<bar>x\<bar> / 2 \<le> \<bar>y\<bar>" using h by linarith+
  have yx: "\<bar>y\<bar> \<le> \<bar>x\<bar> + c * \<bar>x\<bar>" using d by linarith
  have "\<bar>x\<bar> \<le> 2 powi 1022"
  proof (cases "x = 0")
    case True
    then show ?thesis by simp
  next
    case False
    then have "\<bar>x\<bar> \<le> 2 powi b" using range by simp
    also have "\<dots> \<le> 2 powi 1022" using b by (intro power_int_increasing) simp_all
    finally show ?thesis .
  qed
  then have "2 * \<bar>x\<bar> \<le> 2 * 2 powi 1022" by simp
  also have "(2::real) * 2 powi 1022 = 2 powi 1023" by simp
  finally have "\<bar>y\<bar> \<le> 2 powi 1023" using up by simp
  then show "round_double y = Finite (nearest_double y)" by (rule round_double_finite)
  have e: "\<bar>nearest_double y - y\<bar> \<le> \<bar>y\<bar> / 2 ^ 53"
  proof (cases "x = 0")
    case True
    then have "y = 0" using d by simp
    then show ?thesis by (simp add: nearest_double_0)
  next
    case False
    then have "2 powi a \<le> \<bar>x\<bar>" using range by simp
    moreover have "(2::real) powi (- 1021) \<le> 2 powi a"
      using a by (intro power_int_increasing) simp_all
    ultimately have "2 powi (- 1021) \<le> \<bar>x\<bar>" by simp
    then have "2 powi (- 1021) / 2 \<le> \<bar>x\<bar> / 2" by simp
    moreover have "(2::real) powi (- 1021) / 2 = 2 powi (- 1022)"
      by (simp add: power_int_minus)
    ultimately have "2 powi (- 1022) \<le> \<bar>y\<bar>" using lo by simp
    then show ?thesis by (rule nearest_double_error)
  qed
  have "\<bar>nearest_double y - x\<bar> \<le> \<bar>nearest_double y - y\<bar> + \<bar>y - x\<bar>" by linarith
  also have "\<dots> \<le> (\<bar>x\<bar> + c * \<bar>x\<bar>) / 2 ^ 53 + c * \<bar>x\<bar>"
  proof -
    have "\<bar>y\<bar> / 2 ^ 53 \<le> (\<bar>x\<bar> + c * \<bar>x\<bar>) / 2 ^ 53"
      using yx by (intro divide_right_mono) simp_all
    with e d show ?thesis by linarith
  qed
  also have "\<dots> = ((1 + c) * (1 + 1 / 2 ^ 53) - 1) * \<bar>x\<bar>"
    by (simp add: algebra_simps)
  also have "(1 + c) * (1 + 1 / 2 ^ 53) - 1 = (1 + 1 / 2 ^ 53) ^ Suc k - 1"
    by (simp add: c_def)
  finally show "\<bar>nearest_double y - x\<bar> \<le> ((1 + 1 / 2 ^ 53) ^ Suc k - 1) * \<bar>x\<bar>" .
qed

subsection \<open>Ranges\<close>

lemma range_mult:
  fixes x y :: real
  assumes "x = 0 \<or> (2 powi a \<le> \<bar>x\<bar> \<and> \<bar>x\<bar> \<le> 2 powi b)"
    and "y = 0 \<or> (2 powi c \<le> \<bar>y\<bar> \<and> \<bar>y\<bar> \<le> 2 powi d)"
  shows "x * y = 0 \<or> (2 powi (a + c) \<le> \<bar>x * y\<bar> \<and> \<bar>x * y\<bar> \<le> 2 powi (b + d))"
proof (cases "x = 0 \<or> y = 0")
  case True
  then show ?thesis by auto
next
  case False
  then have x: "2 powi a \<le> \<bar>x\<bar>" "\<bar>x\<bar> \<le> 2 powi b" and y: "2 powi c \<le> \<bar>y\<bar>" "\<bar>y\<bar> \<le> 2 powi d"
    using assms by simp_all
  have ac: "(2::real) powi (a + c) = 2 powi a * 2 powi c" by (rule power_int_add) simp
  have bd: "(2::real) powi (b + d) = 2 powi b * 2 powi d" by (rule power_int_add) simp
  have "2 powi a * 2 powi c \<le> \<bar>x\<bar> * \<bar>y\<bar>" using x(1) y(1) by (intro mult_mono) simp_all
  moreover have "\<bar>x\<bar> * \<bar>y\<bar> \<le> 2 powi b * 2 powi d" using x(2) y(2) by (intro mult_mono) simp_all
  ultimately show ?thesis by (simp add: ac bd abs_mult)
qed

lemma range_add:
  fixes x y :: real
  assumes "x = 0 \<or> (2 powi a \<le> \<bar>x\<bar> \<and> \<bar>x\<bar> \<le> 2 powi b)"
    and "y = 0 \<or> (2 powi a \<le> \<bar>y\<bar> \<and> \<bar>y\<bar> \<le> 2 powi b)"
    and "0 \<le> x" "0 \<le> y"
  shows "x + y = 0 \<or> (2 powi a \<le> \<bar>x + y\<bar> \<and> \<bar>x + y\<bar> \<le> 2 powi (b + 1))"
proof -
  have b1: "(2::real) powi (b + 1) = 2 powi b * 2" by (simp add: power_int_add)
  have p: "(0::real) < 2 powi b" by simp
  show ?thesis
  proof (cases "x = 0")
    case x0: True
    show ?thesis
    proof (cases "y = 0")
      case True
      then show ?thesis using x0 by simp
    next
      case False
      then show ?thesis using x0 assms(2,4) p by (simp add: b1)
    qed
  next
    case x0: False
    show ?thesis
    proof (cases "y = 0")
      case True
      then show ?thesis using x0 assms(1,3) p by (simp add: b1)
    next
      case False
      then show ?thesis using x0 assms by (simp add: b1)
    qed
  qed
qed

lemma range_weaken:
  fixes x :: real
  assumes "x = 0 \<or> (2 powi a \<le> \<bar>x\<bar> \<and> \<bar>x\<bar> \<le> 2 powi b)" "a' \<le> a" "b \<le> b'"
  shows "x = 0 \<or> (2 powi a' \<le> \<bar>x\<bar> \<and> \<bar>x\<bar> \<le> 2 powi b')"
proof (cases "x = 0")
  case True
  then show ?thesis by simp
next
  case False
  then have x: "2 powi a \<le> \<bar>x\<bar>" "\<bar>x\<bar> \<le> 2 powi b" using assms(1) by simp_all
  have "(2::real) powi a' \<le> 2 powi a" using assms(2) by (intro power_int_increasing) simp_all
  moreover have "(2::real) powi b \<le> 2 powi b'" using assms(3) by (intro power_int_increasing) simp_all
  ultimately show ?thesis using x by simp
qed

lemma range_tokens:
  assumes "0 \<le> n" "n \<le> 2 ^ 63"
  shows "real_of_int n / 1000000 = 0
         \<or> (2 powi (- 20) \<le> \<bar>real_of_int n / 1000000\<bar> \<and> \<bar>real_of_int n / 1000000\<bar> \<le> 2 powi 63)"
proof (cases "n = 0")
  case True
  then show ?thesis by simp
next
  case False
  then have "1 \<le> n" using assms(1) by simp
  then have "1 \<le> real_of_int n" by simp
  then have lo: "1 / 1000000 \<le> real_of_int n / 1000000" by simp
  have "real_of_int n \<le> real_of_int (2 ^ 63)" using assms(2) by (simp only: of_int_le_iff)
  then have hi: "real_of_int n / 1000000 \<le> 2 ^ 63" by simp
  have "(2::real) powi (- 20) \<le> 1 / 1000000" by (simp add: power_int_minus)
  then show ?thesis using lo hi by simp
qed

lemma range_rate:
  fixes r :: real
  assumes "r = 0 \<or> (1 / 2 ^ 64 \<le> r \<and> r \<le> 2 ^ 64)"
  shows "r = 0 \<or> (2 powi (- 64) \<le> \<bar>r\<bar> \<and> \<bar>r\<bar> \<le> 2 powi 64)"
  using assms by (auto simp add: power_int_minus field_simps)

section \<open>Properties of the cost estimator in floating-point arithmetic\<close>

subsection \<open>The roundings of one call\<close>

lemma rd_9_10: "round_double (9 / 10) = Finite (8106479329266893 / 2 ^ 53)"
  using round_double_normal [of "- 1" "9 / 10" 8106479329266893]
  by (simp add: power_int_minus round_half_even_def Let_def)

lemma rd_7_4: "round_double (7 / 4) = Finite (7 / 4)"
  using round_double_normal [of 0 "7 / 4" 7881299347898368]
  by (simp add: power_int_minus round_half_even_def Let_def)

lemma rd_14: "round_double 14 = Finite 14"
  using round_double_normal [of 3 14 7881299347898368]
  by (simp add: power_int_minus round_half_even_def Let_def)

lemma one_minus_discount:
  "fsub (Finite 1) (Finite (8106479329266893 / 2 ^ 53)) = Finite (900719925474099 / 2 ^ 53)"
  using fsub_normal [of "- 4" 1 "8106479329266893 / 2 ^ 53" 7205759403792792]
  by (simp add: power_int_minus round_half_even_def Let_def)

lemma cached_price_gpt52:
  "fmul (Finite (7 / 4)) (Finite (900719925474099 / 2 ^ 53)) = Finite (6305039478318693 / 2 ^ 55)"
  using fmul_normal [of "- 3" "7 / 4" "900719925474099 / 2 ^ 53" 6305039478318693]
  by (simp add: power_int_minus round_half_even_def Let_def)

lemma three_millionths: "truediv 3 1000000 = Inr (Finite (1770887431076117 / 2 ^ 69))"
  using truediv_normal [of 1000000 "- 19" 3 7083549724304468]
  by (simp add: power_int_minus round_half_even_def Let_def)

lemma cached_cost_gpt52:
  "fmul (Finite (1770887431076117 / 2 ^ 69)) (Finite (6305039478318693 / 2 ^ 55))
     = Finite (2479242403506563 / 2 ^ 72)"
  using fmul_normal [of "- 21" "1770887431076117 / 2 ^ 69" "6305039478318693 / 2 ^ 55" 4958484807013126]
  by (simp add: power_int_minus round_half_even_def Let_def)

lemma zero_plus_cached_cost:
  "fadd (Finite 0) (Finite (2479242403506563 / 2 ^ 72)) = Finite (2479242403506563 / 2 ^ 72)"
  using fadd_normal [of "- 21" 0 "2479242403506563 / 2 ^ 72" 4958484807013126]
  by (simp add: power_int_minus round_half_even_def Let_def)

lemma cached_cost_plus_zero:
  "fadd (Finite (2479242403506563 / 2 ^ 72)) (Finite 0) = Finite (2479242403506563 / 2 ^ 72)"
  using fadd_normal [of "- 21" "2479242403506563 / 2 ^ 72" 0 4958484807013126]
  by (simp add: power_int_minus round_half_even_def Let_def)

lemma left_to_right_1:
  "fmul (Finite (1770887431076117 / 2 ^ 69)) (Finite (7 / 4)) = Finite (3099053004383205 / 2 ^ 69)"
  using fmul_normal [of "- 18" "1770887431076117 / 2 ^ 69" "7 / 4" 6198106008766410]
  by (simp add: power_int_minus round_half_even_def Let_def)

lemma left_to_right_2:
  "fmul (Finite (3099053004383205 / 2 ^ 69)) (Finite (900719925474099 / 2 ^ 53))
     = Finite (4958484807013127 / 2 ^ 73)"
  using fmul_normal [of "- 21" "3099053004383205 / 2 ^ 69" "900719925474099 / 2 ^ 53" 4958484807013127]
  by (simp add: power_int_minus round_half_even_def Let_def)

lemma discount_openai: "get_or CACHE_DISCOUNTS ''openai'' (90 / 10\<^sup>2) = 9 / 10"
  by (simp add: get_or_def CACHE_DISCOUNTS_def)

lemma cached_cost_plus_zero_plus_zero:
  "fadd (fadd (Finite 0) (Finite (2479242403506563 / 2 ^ 72))) (Finite 0)
     = Finite (2479242403506563 / 2 ^ 72)"
  by (simp only: zero_plus_cached_cost cached_cost_plus_zero)

lemma estimate_cost_float_resolved:
  assumes "normalize_model_name model = Inr (provider, api_model)"
    and "get_model_pricing yaml provider api_model = Some pricing"
    and "pricing \<noteq> []"
  shows "estimate_cost_float yaml model input_tokens output_tokens cached_tokens =
     (case truediv (input_tokens - max 0 (min cached_tokens input_tokens)) 1000000 of
        Inl e \<Rightarrow> Inl e
      | Inr uncached_millions \<Rightarrow>
     (case truediv (max 0 (min cached_tokens input_tokens)) 1000000 of
        Inl e \<Rightarrow> Inl e
      | Inr cached_millions \<Rightarrow>
     (case truediv output_tokens 1000000 of
        Inl e \<Rightarrow> Inl e
      | Inr output_millions \<Rightarrow>
          Inr (fadd
                (fadd
                  (fmul uncached_millions (round_double (get_or (map_of pricing) ''input'' 0)))
                  (fmul cached_millions
                    (fmul (round_double (get_or (map_of pricing) ''input'' 0))
                      (fsub (Finite 1)
                        (round_double (if provider = ''google'' then 0.75 else 0.90))))))
                (fmul output_millions (round_double (get_or (map_of pricing) ''output'' 0)))))))"
proof -
  note d = cache_discount_provider [OF normalize_provider [OF assms(1)]]
  show ?thesis
    unfolding estimate_cost_float_def Let_def assms(1) sum.case prod.case assms(2) option.case d
    using assms(3) by (simp only: if_False)
qed

lemma float_cost_gpt52_3:
  "estimate_cost_float Absent ''gpt-5.2'' 3 0 3 = Inr (Finite (2479242403506563 / 2 ^ 72))"
proof -
  have m: "(1000000::int) \<noteq> 0" by simp
  have d: "round_double (if ''openai'' = ''google'' then 0.75 else 0.90)
             = Finite (8106479329266893 / 2 ^ 53)"
    using rd_9_10 by simp
  have r: "round_double (get_or (map_of (price 1.75 14.00)) ''input'' 0) = Finite (7 / 4)"
    "round_double (get_or (map_of (price 1.75 14.00)) ''output'' 0) = Finite 14"
    using rd_7_4 rd_14 by (simp_all add: price_rates)
  have t: "truediv (3 - max 0 (min 3 3)) 1000000 = Inr (Finite 0)"
    "truediv (max 0 (min 3 3)) 1000000 = Inr (Finite (1770887431076117 / 2 ^ 69))"
    "truediv 0 1000000 = Inr (Finite 0)"
    using truediv_0 [OF m] three_millionths by simp_all
  show ?thesis
    unfolding estimate_cost_float_resolved [OF norm_gpt52 price_gpt52 price_nonempty] t d r
      sum.case one_minus_discount cached_price_gpt52 cached_cost_gpt52 fmul_0_left
      cached_cost_plus_zero_plus_zero ..
qed

text \<open>
  Claim C4, as stated, fails: the result is a float, every operation of the code rounds,
  and the code multiplies the rate by \<open>1 - discount\<close> before it multiplies by the token
  count. For \<open>gpt-5.2\<close> with 3 input tokens, all cached, and no output tokens the code
  returns the double \<open>2479242403506563 / 2 ^ 72\<close>, printed \<open>5.249999999999998e-07\<close>. The
  value of the formula is \<open>525 / 10 ^ 9\<close>, which is no double at all; and the formula
  evaluated in floats from left to right, with the quotient \<open>3 / 1e6\<close> that the code
  computes, is another double, \<open>4958484807013127 / 2 ^ 73\<close>, printed \<open>5.25e-07\<close>.
\<close>

theorem fully_cached_cost_not_exact:
  "estimate_cost_float Absent ''gpt-5.2'' 3 0 3 = Inr (Finite (2479242403506563 / 2 ^ 72))
   \<and> (2479242403506563 / 2 ^ 72 :: real) \<noteq> 3 / 1000000 * 1.75 * (1 - 0.90) + 0 / 1000000 * 14.00
   \<and> truediv 3 1000000 = Inr (Finite (1770887431076117 / 2 ^ 69))
   \<and> truediv 0 1000000 = Inr (Finite 0)
   \<and> fadd (fmul (fmul (Finite (1770887431076117 / 2 ^ 69)) (round_double 1.75))
                 (fsub (Finite 1) (round_double 0.90)))
           (fmul (Finite 0) (round_double 14.00))
       = Finite (4958484807013127 / 2 ^ 73)
   \<and> (2479242403506563 / 2 ^ 72 :: real) \<noteq> 4958484807013127 / 2 ^ 73"
proof -
  have r: "round_double 1.75 = Finite (7 / 4)" "round_double 0.90 = Finite (8106479329266893 / 2 ^ 53)"
    "round_double 14.00 = Finite 14"
    using rd_7_4 rd_9_10 rd_14 by simp_all
  have lf: "fadd (Finite (4958484807013127 / 2 ^ 73)) (Finite 0) = Finite (4958484807013127 / 2 ^ 73)"
    using fadd_normal [of "- 21" "4958484807013127 / 2 ^ 73" 0 4958484807013127]
    by (simp add: power_int_minus round_half_even_def Let_def)
  have f: "fadd (fmul (fmul (Finite (1770887431076117 / 2 ^ 69)) (round_double 1.75))
                 (fsub (Finite 1) (round_double 0.90)))
           (fmul (Finite 0) (round_double 14.00))
       = Finite (4958484807013127 / 2 ^ 73)"
    unfolding r one_minus_discount left_to_right_1 left_to_right_2 fmul_0_left lf ..
  have m: "(1000000::int) \<noteq> 0" by simp
  show ?thesis
    using float_cost_gpt52_3 f three_millionths truediv_0 [OF m] by simp
qed

subsection \<open>The cost of a fully cached input\<close>

text \<open>The clamp of the cached count is the same in both arithmetics.\<close>

lemma estimate_cost_float_clamp:
  "estimate_cost_float yaml model input_tokens output_tokens
       (max 0 (min cached_tokens input_tokens))
     = estimate_cost_float yaml model input_tokens output_tokens cached_tokens"
  unfolding estimate_cost_float_def Let_def clamp_idem ..

lemma estimate_cost_float_fully_cached:
  assumes "normalize_model_name model = Inr (provider, api_model)"
    and "get_model_pricing yaml provider api_model = Some pricing"
    and "pricing \<noteq> []"
    and "0 \<le> inp"
    and "\<bar>get_or (map_of pricing) ''input'' 0\<bar> \<le> 2 ^ 1023"
  shows "estimate_cost_float yaml model inp outp inp =
     (case truediv inp 1000000 of
        Inl e \<Rightarrow> Inl e
      | Inr cached_millions \<Rightarrow>
     (case truediv outp 1000000 of
        Inl e \<Rightarrow> Inl e
      | Inr output_millions \<Rightarrow>
          Inr (fadd
                (fmul cached_millions
                  (fmul (round_double (get_or (map_of pricing) ''input'' 0))
                    (fsub (Finite 1)
                      (round_double (if provider = ''google'' then 0.75 else 0.90)))))
                (fmul output_millions (round_double (get_or (map_of pricing) ''output'' 0))))))"
proof -
  have c: "max 0 (min inp inp) = inp" using assms(4) by simp
  have z: "truediv (inp - inp) 1000000 = Inr (Finite 0)" by (simp add: truediv_0)
  have "\<bar>get_or (map_of pricing) ''input'' 0\<bar> \<le> 2 powi 1023" using assms(5) by simp
  then have r: "round_double (get_or (map_of pricing) ''input'' 0)
                  = Finite (nearest_double (get_or (map_of pricing) ''input'' 0))"
    by (rule round_double_finite)
  show ?thesis
    unfolding estimate_cost_float_resolved [OF assms(1-3)] c z sum.case r fmul_0_left fadd_0_fmul ..
qed

lemma estimate_cost_float_overflow:
  assumes "normalize_model_name model = Inr (provider, api_model)"
    and "get_model_pricing yaml provider api_model = Some pricing"
    and "pricing \<noteq> []"
    and "1000000 * 2 ^ 1024 \<le> inp"
  shows "estimate_cost_float yaml model inp outp inp = Inl OverflowError"
proof -
  have "(0::int) \<le> 1000000 * 2 ^ 1024" by simp
  then have i: "0 \<le> inp" using assms(4) by (rule order_trans)
  have c: "max 0 (min inp inp) = inp" using i by simp
  have z: "truediv (inp - inp) 1000000 = Inr (Finite 0)" by (simp add: truediv_0)
  have "real_of_int (1000000 * 2 ^ 1024) \<le> real_of_int inp"
    using assms(4) by (simp only: of_int_le_iff)
  then have "2 ^ 1024 \<le> real_of_int inp / real_of_int 1000000" by simp
  then have "round_double (real_of_int inp / real_of_int 1000000) = PosInf"
    by (rule round_double_overflow)
  then have t: "truediv inp 1000000 = Inl OverflowError" by (simp add: truediv_def)
  show ?thesis
    unfolding estimate_cost_float_resolved [OF assms(1-3)] c z sum.case t ..
qed

lemma fully_cached_error:
  fixes inp outp :: int and rin rout d :: real
  assumes i: "0 \<le> inp" "inp \<le> 2 ^ 63" and o: "0 \<le> outp" "outp \<le> 2 ^ 63"
    and ri: "rin = 0 \<or> (1 / 2 ^ 64 \<le> rin \<and> rin \<le> 2 ^ 64)"
    and ro: "rout = 0 \<or> (1 / 2 ^ 64 \<le> rout \<and> rout \<le> 2 ^ 64)"
    and d: "d = 3 / 4 \<or> d = 9 / 10"
  shows "\<exists>a b c. truediv inp 1000000 = Inr (Finite a) \<and> truediv outp 1000000 = Inr (Finite b)
      \<and> fadd (fmul (Finite a) (fmul (round_double rin) (fsub (Finite 1) (round_double d))))
              (fmul (Finite b) (round_double rout)) = Finite c
      \<and> \<bar>c - (real_of_int inp / 1000000 * rin * (1 - d) + real_of_int outp / 1000000 * rout)\<bar>
          \<le> (real_of_int inp / 1000000 * rin * (1 - d) + real_of_int outp / 1000000 * rout) / 2 ^ 49"
proof -
  define A where "A = real_of_int inp / 1000000"
  define B where "B = real_of_int outp / 1000000"
  define D where "D = 1 - d"
  define P where "P = rin * D"
  define T1 where "T1 = A * P"
  define T2 where "T2 = B * rout"
  define E where "E = T1 + T2"
  define r' where "r' = nearest_double rin"
  define o' where "o' = nearest_double rout"
  define d' where "d' = nearest_double d"
  define w' where "w' = nearest_double (1 - d')"
  define cp' where "cp' = nearest_double (r' * w')"
  define a' where "a' = nearest_double A"
  define b' where "b' = nearest_double B"
  define t1 where "t1 = nearest_double (a' * cp')"
  define t2 where "t2 = nearest_double (b' * o')"
  define c where "c = nearest_double (t1 + t2)"
  have rA: "A = 0 \<or> (2 powi (- 20) \<le> \<bar>A\<bar> \<and> \<bar>A\<bar> \<le> 2 powi 63)"
    unfolding A_def using i by (rule range_tokens)
  have rB: "B = 0 \<or> (2 powi (- 20) \<le> \<bar>B\<bar> \<and> \<bar>B\<bar> \<le> 2 powi 63)"
    unfolding B_def using o by (rule range_tokens)
  have rR: "rin = 0 \<or> (2 powi (- 64) \<le> \<bar>rin\<bar> \<and> \<bar>rin\<bar> \<le> 2 powi 64)"
    using ri by (rule range_rate)
  have rO: "rout = 0 \<or> (2 powi (- 64) \<le> \<bar>rout\<bar> \<and> \<bar>rout\<bar> \<le> 2 powi 64)"
    using ro by (rule range_rate)
  have rd: "d = 0 \<or> (2 powi (- 1) \<le> \<bar>d\<bar> \<and> \<bar>d\<bar> \<le> 2 powi 0)"
    using d by (auto simp add: power_int_minus)
  have rD: "D = 0 \<or> (2 powi (- 4) \<le> \<bar>D\<bar> \<and> \<bar>D\<bar> \<le> 2 powi 0)"
    using d by (auto simp add: D_def power_int_minus)
  have d09: "0 \<le> d" "d \<le> 9 / 10" using d by auto
  have D0: "0 \<le> D" using d by (auto simp add: D_def)
  have A0: "0 \<le> A" using i(1) by (simp add: A_def)
  have B0: "0 \<le> B" using o(1) by (simp add: B_def)
  have R0: "0 \<le> rin" using ri by auto
  have O0: "0 \<le> rout" using ro by auto
  have T10: "0 \<le> T1" unfolding T1_def P_def using A0 R0 D0 by simp
  have T20: "0 \<le> T2" unfolding T2_def using B0 O0 by simp
  have rP: "P = 0 \<or> (2 powi (- 68) \<le> \<bar>P\<bar> \<and> \<bar>P\<bar> \<le> 2 powi 64)"
    unfolding P_def using range_mult [OF rR rD] by simp
  have rT1: "T1 = 0 \<or> (2 powi (- 88) \<le> \<bar>T1\<bar> \<and> \<bar>T1\<bar> \<le> 2 powi 127)"
    unfolding T1_def using range_mult [OF rA rP] by simp
  have rT2': "T2 = 0 \<or> (2 powi (- 84) \<le> \<bar>T2\<bar> \<and> \<bar>T2\<bar> \<le> 2 powi 127)"
    unfolding T2_def using range_mult [OF rB rO] by simp
  have rT2: "T2 = 0 \<or> (2 powi (- 88) \<le> \<bar>T2\<bar> \<and> \<bar>T2\<bar> \<le> 2 powi 127)"
    using rT2' by (rule range_weaken) simp_all
  have rE: "E = 0 \<or> (2 powi (- 88) \<le> \<bar>E\<bar> \<and> \<bar>E\<bar> \<le> 2 powi 128)"
    unfolding E_def using range_add [OF rT1 rT2 T10 T20] by simp
  have f1: "round_double rin = Finite r'"
    unfolding r'_def by (rule rel_round(1) [OF rel_refl _ rR]) simp_all
  have e1: "\<bar>r' - rin\<bar> \<le> ((1 + 1 / 2 ^ 53) ^ 1 - 1) * \<bar>rin\<bar>"
    unfolding r'_def by (rule rel_mono [OF rel_round(2) [OF rel_refl _ rR]]) simp_all
  have f1o: "round_double rout = Finite o'"
    unfolding o'_def by (rule rel_round(1) [OF rel_refl _ rO]) simp_all
  have e1o: "\<bar>o' - rout\<bar> \<le> ((1 + 1 / 2 ^ 53) ^ 1 - 1) * \<bar>rout\<bar>"
    unfolding o'_def by (rule rel_mono [OF rel_round(2) [OF rel_refl _ rO]]) simp_all
  have f2: "round_double d = Finite d'"
    unfolding d'_def by (rule rel_round(1) [OF rel_refl _ rd]) simp_all
  have e2: "\<bar>d' - d\<bar> \<le> ((1 + 1 / 2 ^ 53) ^ 1 - 1) * \<bar>d\<bar>"
    unfolding d'_def by (rule rel_mono [OF rel_round(2) [OF rel_refl _ rd]]) simp_all
  have e3p: "\<bar>(1 - d') - D\<bar> \<le> ((1 + 1 / 2 ^ 53) ^ 9 - 1) * \<bar>D\<bar>"
    unfolding D_def using e2 d09 by (rule rel_one_minus)
  have f3: "round_double (1 - d') = Finite w'"
    unfolding w'_def by (rule rel_round(1) [OF e3p _ rD]) simp_all
  have e3: "\<bar>w' - D\<bar> \<le> ((1 + 1 / 2 ^ 53) ^ 10 - 1) * \<bar>D\<bar>"
    unfolding w'_def by (rule rel_mono [OF rel_round(2) [OF e3p _ rD]]) simp_all
  have e4p: "\<bar>r' * w' - P\<bar> \<le> ((1 + 1 / 2 ^ 53) ^ 11 - 1) * \<bar>P\<bar>"
    unfolding P_def by (rule rel_mono [OF rel_mult [OF e1 e3]]) simp
  have f4: "round_double (r' * w') = Finite cp'"
    unfolding cp'_def by (rule rel_round(1) [OF e4p _ rP]) simp_all
  have e4: "\<bar>cp' - P\<bar> \<le> ((1 + 1 / 2 ^ 53) ^ 12 - 1) * \<bar>P\<bar>"
    unfolding cp'_def by (rule rel_mono [OF rel_round(2) [OF e4p _ rP]]) simp_all
  have f5: "round_double A = Finite a'"
    unfolding a'_def by (rule rel_round(1) [OF rel_refl _ rA]) simp_all
  have e5: "\<bar>a' - A\<bar> \<le> ((1 + 1 / 2 ^ 53) ^ 1 - 1) * \<bar>A\<bar>"
    unfolding a'_def by (rule rel_mono [OF rel_round(2) [OF rel_refl _ rA]]) simp_all
  have f5b: "round_double B = Finite b'"
    unfolding b'_def by (rule rel_round(1) [OF rel_refl _ rB]) simp_all
  have e5b: "\<bar>b' - B\<bar> \<le> ((1 + 1 / 2 ^ 53) ^ 1 - 1) * \<bar>B\<bar>"
    unfolding b'_def by (rule rel_mono [OF rel_round(2) [OF rel_refl _ rB]]) simp_all
  have e6p: "\<bar>a' * cp' - T1\<bar> \<le> ((1 + 1 / 2 ^ 53) ^ 13 - 1) * \<bar>T1\<bar>"
    unfolding T1_def by (rule rel_mono [OF rel_mult [OF e5 e4]]) simp
  have f6: "round_double (a' * cp') = Finite t1"
    unfolding t1_def by (rule rel_round(1) [OF e6p _ rT1]) simp_all
  have e6: "\<bar>t1 - T1\<bar> \<le> ((1 + 1 / 2 ^ 53) ^ 14 - 1) * \<bar>T1\<bar>"
    unfolding t1_def by (rule rel_mono [OF rel_round(2) [OF e6p _ rT1]]) simp_all
  have e7p: "\<bar>b' * o' - T2\<bar> \<le> ((1 + 1 / 2 ^ 53) ^ 2 - 1) * \<bar>T2\<bar>"
    unfolding T2_def by (rule rel_mono [OF rel_mult [OF e5b e1o]]) simp
  have f7: "round_double (b' * o') = Finite t2"
    unfolding t2_def by (rule rel_round(1) [OF e7p _ rT2]) simp_all
  have e7: "\<bar>t2 - T2\<bar> \<le> ((1 + 1 / 2 ^ 53) ^ 14 - 1) * \<bar>T2\<bar>"
    unfolding t2_def by (rule rel_mono [OF rel_round(2) [OF e7p _ rT2]]) simp_all
  have e8p: "\<bar>(t1 + t2) - E\<bar> \<le> ((1 + 1 / 2 ^ 53) ^ 14 - 1) * \<bar>E\<bar>"
    unfolding E_def using e6 e7 T10 T20 by (rule rel_add)
  have f8: "round_double (t1 + t2) = Finite c"
    unfolding c_def by (rule rel_round(1) [OF e8p _ rE]) simp_all
  have e8: "\<bar>c - E\<bar> \<le> ((1 + 1 / 2 ^ 53) ^ 15 - 1) * \<bar>E\<bar>"
    unfolding c_def by (rule rel_mono [OF rel_round(2) [OF e8p _ rE]]) simp_all
  have E0: "0 \<le> E" unfolding E_def using T10 T20 by simp
  have "((1 + 1 / 2 ^ 53) ^ 15 - 1) * \<bar>E\<bar> \<le> 1 / 2 ^ 49 * \<bar>E\<bar>"
    using roundings_15 by (intro mult_right_mono) simp_all
  with e8 have "\<bar>c - E\<bar> \<le> 1 / 2 ^ 49 * \<bar>E\<bar>" by (rule order_trans)
  then have bound: "\<bar>c - E\<bar> \<le> E / 2 ^ 49" using E0 by simp
  have Eq: "E = real_of_int inp / 1000000 * rin * (1 - d) + real_of_int outp / 1000000 * rout"
    by (simp add: E_def T1_def T2_def P_def A_def B_def D_def)
  have ta: "truediv inp 1000000 = Inr (Finite a')"
    using f5 by (simp add: truediv_def A_def)
  have tb: "truediv outp 1000000 = Inr (Finite b')"
    using f5b by (simp add: truediv_def B_def)
  have h3: "fsub (Finite 1) (round_double d) = Finite w'"
    by (simp add: f2 fsub_def f3)
  have h4: "fmul (round_double rin) (Finite w') = Finite cp'"
    by (simp add: f1 f4)
  have h6: "fmul (Finite a') (Finite cp') = Finite t1"
    by (simp add: f6)
  have h7: "fmul (Finite b') (round_double rout) = Finite t2"
    by (simp add: f1o f7)
  have h8: "fadd (Finite t1) (Finite t2) = Finite c"
    by (simp add: f8)
  have "fadd (fmul (Finite a') (fmul (round_double rin) (fsub (Finite 1) (round_double d))))
              (fmul (Finite b') (round_double rout)) = Finite c"
    unfolding h3 h4 h6 h7 h8 ..
  with ta tb bound show ?thesis unfolding Eq by blast
qed

text \<open>
  Claim C4, amended. Take a model whose name resolves and whose price entry is found and
  not empty; the rates are the entry's \<open>input\<close> and \<open>output\<close> values (0 when the key is
  missing), the discount is 0.75 for google and 0.90 for openai and anthropic.

  For \<open>inp \<ge> 0\<close> and rates of magnitude at most \<open>2 ^ 1023\<close>,
  \<open>estimate_cost(model, inp, outp, inp)\<close> is the float sum of
  \<open>(inp / 1e6) * (input_rate * (1 - discount))\<close> and \<open>(outp / 1e6) * output_rate\<close>, each of
  the operations rounded to the nearest double, and \<open>OverflowError\<close> when one of the two
  quotients is out of the range of the doubles.

  For token counts from 0 to \<open>2 ^ 63\<close> and rates that are 0 or between \<open>2 ^ -64\<close> and
  \<open>2 ^ 64\<close> the call returns a finite float that differs from the exact value of
  \<open>inp / 1e6 * input_rate * (1 - discount) + outp / 1e6 * output_rate\<close> by at most that
  value divided by \<open>2 ^ 49\<close>: the two agree to 14 significant decimal digits.

  For \<open>inp \<ge> 10 ^ 6 * 2 ^ 1024\<close> the call raises \<open>OverflowError\<close>.
\<close>

theorem fully_cached_cost_float:
  assumes "normalize_model_name model = Inr (provider, api_model)"
    and "get_model_pricing yaml provider api_model = Some pricing"
    and "pricing \<noteq> []"
    and "input_rate = get_or (map_of pricing) ''input'' 0"
    and "output_rate = get_or (map_of pricing) ''output'' 0"
    and "discount = (if provider = ''google'' then 0.75 else 0.90)"
  shows "(0 \<le> inp \<and> \<bar>input_rate\<bar> \<le> 2 ^ 1023 \<and> \<bar>output_rate\<bar> \<le> 2 ^ 1023 \<longrightarrow>
            estimate_cost_float yaml model inp outp inp =
              (case truediv inp 1000000 of
                 Inl e \<Rightarrow> Inl e
               | Inr cached_millions \<Rightarrow>
              (case truediv outp 1000000 of
                 Inl e \<Rightarrow> Inl e
               | Inr output_millions \<Rightarrow>
                   Inr (fadd
                         (fmul cached_millions
                           (fmul (round_double input_rate)
                             (fsub (Finite 1) (round_double discount))))
                         (fmul output_millions (round_double output_rate))))))
       \<and> (0 \<le> inp \<and> inp \<le> 2 ^ 63 \<and> 0 \<le> outp \<and> outp \<le> 2 ^ 63
          \<and> (input_rate = 0 \<or> (1 / 2 ^ 64 \<le> input_rate \<and> input_rate \<le> 2 ^ 64))
          \<and> (output_rate = 0 \<or> (1 / 2 ^ 64 \<le> output_rate \<and> output_rate \<le> 2 ^ 64)) \<longrightarrow>
            (\<exists>cost. estimate_cost_float yaml model inp outp inp = Inr (Finite cost)
               \<and> \<bar>cost - (real_of_int inp / 1000000 * input_rate * (1 - discount)
                            + real_of_int outp / 1000000 * output_rate)\<bar>
                   \<le> (real_of_int inp / 1000000 * input_rate * (1 - discount)
                        + real_of_int outp / 1000000 * output_rate) / 2 ^ 49))
       \<and> (1000000 * 2 ^ 1024 \<le> inp \<longrightarrow>
            estimate_cost_float yaml model inp outp inp = Inl OverflowError)"
proof (intro conjI impI)
  assume "0 \<le> inp \<and> \<bar>input_rate\<bar> \<le> 2 ^ 1023 \<and> \<bar>output_rate\<bar> \<le> 2 ^ 1023"
  then have "0 \<le> inp" "\<bar>get_or (map_of pricing) ''input'' 0\<bar> \<le> 2 ^ 1023"
    by (simp_all add: assms(4))
  from estimate_cost_float_fully_cached [OF assms(1-3) this, of outp]
  show "estimate_cost_float yaml model inp outp inp =
              (case truediv inp 1000000 of
                 Inl e \<Rightarrow> Inl e
               | Inr cached_millions \<Rightarrow>
              (case truediv outp 1000000 of
                 Inl e \<Rightarrow> Inl e
               | Inr output_millions \<Rightarrow>
                   Inr (fadd
                         (fmul cached_millions
                           (fmul (round_double input_rate)
                             (fsub (Finite 1) (round_double discount))))
                         (fmul output_millions (round_double output_rate)))))"
    by (simp only: assms(4-6))
next
  assume h: "0 \<le> inp \<and> inp \<le> 2 ^ 63 \<and> 0 \<le> outp \<and> outp \<le> 2 ^ 63
          \<and> (input_rate = 0 \<or> (1 / 2 ^ 64 \<le> input_rate \<and> input_rate \<le> 2 ^ 64))
          \<and> (output_rate = 0 \<or> (1 / 2 ^ 64 \<le> output_rate \<and> output_rate \<le> 2 ^ 64))"
  then have i: "0 \<le> inp" "inp \<le> 2 ^ 63" and o: "0 \<le> outp" "outp \<le> 2 ^ 63"
    and ri: "input_rate = 0 \<or> (1 / 2 ^ 64 \<le> input_rate \<and> input_rate \<le> 2 ^ 64)"
    and ro: "output_rate = 0 \<or> (1 / 2 ^ 64 \<le> output_rate \<and> output_rate \<le> 2 ^ 64)"
    by simp_all
  have d: "discount = 3 / 4 \<or> discount = 9 / 10" by (simp add: assms(6))
  have "\<bar>input_rate\<bar> \<le> 2 ^ 64" using ri by auto
  also have "(2::real) ^ 64 \<le> 2 ^ 1023" by (intro power_increasing) simp_all
  finally have "\<bar>get_or (map_of pricing) ''input'' 0\<bar> \<le> 2 ^ 1023" by (simp only: assms(4))
  note f = estimate_cost_float_fully_cached [OF assms(1-3) i(1) this, of outp,
      folded assms(4-6)]
  from fully_cached_error [OF i o ri ro d]
  obtain a b c where ta: "truediv inp 1000000 = Inr (Finite a)"
    and tb: "truediv outp 1000000 = Inr (Finite b)"
    and v: "fadd (fmul (Finite a) (fmul (round_double input_rate)
                     (fsub (Finite 1) (round_double discount))))
              (fmul (Finite b) (round_double output_rate)) = Finite c"
    and e: "\<bar>c - (real_of_int inp / 1000000 * input_rate * (1 - discount)
                    + real_of_int outp / 1000000 * output_rate)\<bar>
          \<le> (real_of_int inp / 1000000 * input_rate * (1 - discount)
               + real_of_int outp / 1000000 * output_rate) / 2 ^ 49"
    by blast
  have "estimate_cost_float yaml model inp outp inp = Inr (Finite c)"
    unfolding f ta tb sum.case v ..
  with e show "\<exists>cost. estimate_cost_float yaml model inp outp inp = Inr (Finite cost)
               \<and> \<bar>cost - (real_of_int inp / 1000000 * input_rate * (1 - discount)
                            + real_of_int outp / 1000000 * output_rate)\<bar>
                   \<le> (real_of_int inp / 1000000 * input_rate * (1 - discount)
                        + real_of_int outp / 1000000 * output_rate) / 2 ^ 49"
    by blast
next
  assume "1000000 * 2 ^ 1024 \<le> inp"
  with assms(1-3) show "estimate_cost_float yaml model inp outp inp = Inl OverflowError"
    by (rule estimate_cost_float_overflow)
qed

theorem fully_cached_cost_float_witness:
  "estimate_cost_float Absent ''gpt-5.2'' 3 0 3 =
     Inr (fadd
           (fmul (Finite (1770887431076117 / 2 ^ 69))
             (fmul (round_double 1.75) (fsub (Finite 1) (round_double 0.90))))
           (fmul (Finite 0) (round_double 14.00)))
   \<and> (\<exists>cost. estimate_cost_float Absent ''gpt-5.2'' 3 0 3 = Inr (Finite cost)
        \<and> \<bar>cost - 3 / 1000000 * 1.75 * (1 - 0.90)\<bar> \<le> 3 / 1000000 * 1.75 * (1 - 0.90) / 2 ^ 49)
   \<and> estimate_cost_float Absent ''gpt-5.2'' (1000000 * 2 ^ 1024) 0 (1000000 * 2 ^ 1024)
       = Inl OverflowError"
proof -
  have r: "(7 / 4 :: real) = get_or (map_of (price 1.75 14.00)) ''input'' 0"
    "(14 :: real) = get_or (map_of (price 1.75 14.00)) ''output'' 0"
    by (simp_all add: price_rates)
  have d: "(9 / 10 :: real) = (if ''openai'' = ''google'' then 0.75 else 0.90)" by simp
  note T = fully_cached_cost_float [OF norm_gpt52 price_gpt52 price_nonempty r d]
  have m: "(1000000::int) \<noteq> 0" by simp
  have 1: "estimate_cost_float Absent ''gpt-5.2'' 3 0 3 =
     Inr (fadd
           (fmul (Finite (1770887431076117 / 2 ^ 69))
             (fmul (round_double (7 / 4)) (fsub (Finite 1) (round_double (9 / 10)))))
           (fmul (Finite 0) (round_double 14)))"
    using T [of 3 0, THEN conjunct1] by (simp add: three_millionths truediv_0 [OF m])
  have 2: "\<exists>cost. estimate_cost_float Absent ''gpt-5.2'' 3 0 3 = Inr (Finite cost)
        \<and> \<bar>cost - 3 / 1000000 * (7 / 4) * (1 - 9 / 10)\<bar>
            \<le> 3 / 1000000 * (7 / 4) * (1 - 9 / 10) / 2 ^ 49"
    using T [of 3 0, THEN conjunct2, THEN conjunct1] by simp
  have 3: "estimate_cost_float Absent ''gpt-5.2'' (1000000 * 2 ^ 1024) 0 (1000000 * 2 ^ 1024)
       = Inl OverflowError"
    using T [of "1000000 * 2 ^ 1024" 0, THEN conjunct2, THEN conjunct2] by simp
  show ?thesis using 1 2 3 by simp
qed

subsection \<open>The cached share of a text\<close>

lemma round_double_FiniteD:
  assumes "round_double x = Finite y"
  shows "nearest_double x = y"
  using assms by (simp add: round_double_def Let_def split: if_splits)

lemma nearest_double_of_int:
  assumes "\<bar>t\<bar> < 2 ^ 53"
  shows "nearest_double (real_of_int t) = real_of_int t"
proof (cases "t = 0")
  case True
  then show ?thesis by (simp add: nearest_double_0)
next
  case False
  then have x0: "real_of_int t \<noteq> 0" by simp
  have "real_of_int \<bar>t\<bar> < real_of_int (2 ^ 53)" using assms by (simp only: of_int_less_iff)
  then have "\<bar>real_of_int t\<bar> < 2 powi 53" by simp
  with x0 have "ulp_exponent (real_of_int t) \<le> 53 - 53"
    by (rule ulp_exponent_less) simp
  then have "ulp_exponent (real_of_int t) \<le> 0" by simp
  moreover have "real_of_int t = real_of_int t * 2 powi 0" by simp
  ultimately show ?thesis by (intro nearest_double_exact [of _ t 0])
qed

lemma float_of_int_exact:
  assumes "\<bar>t\<bar> < 2 ^ 53"
  shows "float_of_int t = Inr (Finite (real_of_int t))"
proof -
  have "real_of_int \<bar>t\<bar> < real_of_int (2 ^ 53)" using assms by (simp only: of_int_less_iff)
  then have "\<bar>real_of_int t\<bar> \<le> 2 powi 53" by simp
  also have "(2::real) powi 53 \<le> 2 powi 1023" by (intro power_int_increasing) simp_all
  finally have "round_double (real_of_int t) = Finite (nearest_double (real_of_int t))"
    by (rule round_double_finite)
  then show ?thesis
    using nearest_double_of_int [OF assms] by (simp add: float_of_int_def)
qed

lemma rounded_share:
  assumes "0 \<le> t" "t < 2 ^ 53" "0 \<le> x" "x \<le> 1"
  shows "round_double (real_of_int t * x) = Finite (nearest_double (real_of_int t * x))"
    and "0 \<le> nearest_double (real_of_int t * x)"
    and "\<lfloor>real_of_int t * x\<rfloor> \<le> \<lfloor>nearest_double (real_of_int t * x)\<rfloor>"
    and "\<lfloor>nearest_double (real_of_int t * x)\<rfloor> \<le> \<lfloor>real_of_int t * x\<rfloor> + 1"
    and "\<lfloor>nearest_double (real_of_int t * x)\<rfloor> \<le> t"
proof -
  define z where "z = real_of_int t * x"
  have z0: "0 \<le> z" using assms(1,3) by (simp add: z_def)
  have "real_of_int t * x \<le> real_of_int t * 1"
    using assms(1,4) by (intro mult_left_mono) simp_all
  then have zt: "z \<le> real_of_int t" by (simp add: z_def)
  have "real_of_int t < real_of_int (2 ^ 53)" using assms(2) by (simp only: of_int_less_iff)
  then have tb: "real_of_int t < 2 powi 53" by simp
  with zt z0 have zb: "\<bar>z\<bar> < 2 powi 53" by simp
  have "\<bar>z\<bar> \<le> 2 powi 53" using zb by simp
  also have "(2::real) powi 53 \<le> 2 powi 1023" by (intro power_int_increasing) simp_all
  finally have f: "round_double z = Finite (nearest_double z)" by (rule round_double_finite)
  have n0: "0 \<le> nearest_double z" using z0 by (rule nearest_double_nonneg)
  have b: "real_of_int \<lfloor>z\<rfloor> \<le> nearest_double z \<and> nearest_double z \<le> real_of_int (\<lfloor>z\<rfloor> + 1)
           \<and> nearest_double z \<le> real_of_int t"
  proof (cases "z = 0")
    case True
    then show ?thesis using assms(1) by (simp add: nearest_double_0)
  next
    case False
    from False zb have "ulp_exponent z \<le> 53 - 53" by (rule ulp_exponent_less) simp
    then have u: "ulp_exponent z \<le> 0" by simp
    have "real_of_int \<lfloor>z\<rfloor> * 2 powi 0 \<le> z" by simp
    then have 1: "real_of_int \<lfloor>z\<rfloor> * 2 powi 0 \<le> nearest_double z"
      using u by (rule nearest_double_ge)
    have "z \<le> real_of_int (\<lfloor>z\<rfloor> + 1) * 2 powi 0" by simp
    then have 2: "nearest_double z \<le> real_of_int (\<lfloor>z\<rfloor> + 1) * 2 powi 0"
      using u by (rule nearest_double_le)
    have "z \<le> real_of_int t * 2 powi 0" using zt by simp
    then have 3: "nearest_double z \<le> real_of_int t * 2 powi 0"
      using u by (rule nearest_double_le)
    from 1 2 3 show ?thesis by simp
  qed
  have l: "\<lfloor>z\<rfloor> \<le> \<lfloor>nearest_double z\<rfloor>" using b by (simp add: le_floor_iff)
  have "\<lfloor>nearest_double z\<rfloor> \<le> \<lfloor>real_of_int (\<lfloor>z\<rfloor> + 1)\<rfloor>" using b by (intro floor_mono) simp
  then have h: "\<lfloor>nearest_double z\<rfloor> \<le> \<lfloor>z\<rfloor> + 1" by (simp only: floor_of_int)
  have "\<lfloor>nearest_double z\<rfloor> \<le> \<lfloor>real_of_int t\<rfloor>" using b by (intro floor_mono) simp
  then have k: "\<lfloor>nearest_double z\<rfloor> \<le> t" by (simp only: floor_of_int)
  from f show "round_double (real_of_int t * x) = Finite (nearest_double (real_of_int t * x))"
    by (simp only: z_def)
  from n0 show "0 \<le> nearest_double (real_of_int t * x)" by (simp only: z_def)
  from l show "\<lfloor>real_of_int t * x\<rfloor> \<le> \<lfloor>nearest_double (real_of_int t * x)\<rfloor>"
    by (simp only: z_def)
  from h show "\<lfloor>nearest_double (real_of_int t * x)\<rfloor> \<le> \<lfloor>real_of_int t * x\<rfloor> + 1"
    by (simp only: z_def)
  from k show "\<lfloor>nearest_double (real_of_int t * x)\<rfloor> \<le> t" by (simp only: z_def)
qed

lemma truediv_finite:
  assumes "\<bar>a\<bar> \<le> 2 ^ 1023"
  shows "\<exists>y. truediv a 1000000 = Inr (Finite y)"
proof -
  have "real_of_int \<bar>a\<bar> \<le> real_of_int (2 ^ 1023)" using assms by (simp only: of_int_le_iff)
  then have a: "\<bar>real_of_int a\<bar> \<le> 2 powi 1023" by simp
  have "\<bar>real_of_int a / real_of_int 1000000\<bar> = \<bar>real_of_int a\<bar> / 1000000" by simp
  also have "\<dots> \<le> \<bar>real_of_int a\<bar> / 1" by (intro divide_left_mono) simp_all
  finally have "\<bar>real_of_int a / real_of_int 1000000\<bar> \<le> 2 powi 1023" using a by simp
  then have "round_double (real_of_int a / real_of_int 1000000)
               = Finite (nearest_double (real_of_int a / real_of_int 1000000))"
    by (rule round_double_finite)
  then show ?thesis by (simp add: truediv_def)
qed

lemma estimate_cost_float_returns:
  assumes "normalize_model_name model = Inr (provider, api_model)"
    and "get_model_pricing yaml provider api_model = Some pricing"
    and "pricing \<noteq> []"
    and "\<bar>input_tokens - max 0 (min cached_tokens input_tokens)\<bar> \<le> 2 ^ 1023"
    and "\<bar>max 0 (min cached_tokens input_tokens)\<bar> \<le> 2 ^ 1023"
    and "\<bar>output_tokens\<bar> \<le> 2 ^ 1023"
  shows "\<exists>cost. estimate_cost_float yaml model input_tokens output_tokens cached_tokens = Inr cost"
proof -
  obtain u where u: "truediv (input_tokens - max 0 (min cached_tokens input_tokens)) 1000000
                       = Inr (Finite u)"
    using truediv_finite [OF assms(4)] by blast
  obtain c where c: "truediv (max 0 (min cached_tokens input_tokens)) 1000000 = Inr (Finite c)"
    using truediv_finite [OF assms(5)] by blast
  obtain o' where o': "truediv output_tokens 1000000 = Inr (Finite o')"
    using truediv_finite [OF assms(6)] by blast
  show ?thesis
    unfolding estimate_cost_float_resolved [OF assms(1-3)] u c o' sum.case by blast
qed

lemma estimate_cost_from_text_float_invalid:
  assumes "\<not> (fle (Finite 0) cached_ratio \<and> fle cached_ratio (Finite 1))"
  shows "estimate_cost_from_text_float yaml model input_text n cached_ratio = Inl InvalidCachedRatio"
  using assms by (simp add: estimate_cost_from_text_float_def)

lemma estimate_cost_from_text_float_valid:
  assumes "normalize_model_name model = Inr (provider, api_model)"
    and "get_model_pricing yaml provider api_model = Some pricing"
    and "pricing \<noteq> []"
    and "0 \<le> x" "x \<le> 1"
    and "estimate_tokens input_text < 2 ^ 53"
    and "\<bar>n\<bar> \<le> 2 ^ 1023"
  shows "\<exists>cost. estimate_cost_from_text_float yaml model input_text n (Finite x) =
     Inr \<lparr>fb_model = model,
          fb_input_tokens = estimate_tokens input_text,
          fb_output_tokens = n,
          fb_cached_tokens = \<lfloor>nearest_double (real_of_int (estimate_tokens input_text) * x)\<rfloor>,
          fb_estimated_cost = cost,
          fb_is_estimated = contains ''pro'' (lower model)\<rparr>"
proof -
  define t where "t = estimate_tokens input_text"
  define c where "c = \<lfloor>nearest_double (real_of_int t * x)\<rfloor>"
  have t0: "0 \<le> t" unfolding t_def by (rule estimate_tokens_nonneg)
  have tb: "t < 2 ^ 53" unfolding t_def by (rule assms(6))
  note p = rounded_share [OF t0 tb assms(4,5)]
  have "\<bar>t\<bar> < 2 ^ 53" using t0 tb by simp
  then have fi: "float_of_int t = Inr (Finite (real_of_int t))" by (rule float_of_int_exact)
  have c0: "0 \<le> c" unfolding c_def using p(2) by simp
  have ct: "c \<le> t" unfolding c_def by (rule p(5))
  have ic: "int_of_pyfloat (Finite (nearest_double (real_of_int t * x))) = Inr c"
    using p(2) by (simp add: int_of_pyfloat_def int_of_float_def c_def)
  have m: "max 0 (min c t) = c" using c0 ct by simp
  have big: "(2::int) ^ 53 \<le> 2 ^ 1023" by (intro power_increasing) simp_all
  have "\<bar>t - max 0 (min c t)\<bar> \<le> 2 ^ 1023" "\<bar>max 0 (min c t)\<bar> \<le> 2 ^ 1023"
    unfolding m using c0 ct tb big by simp_all
  from estimate_cost_float_returns [OF assms(1-3) this assms(7)]
  obtain cost where ec: "estimate_cost_float yaml model t n c = Inr cost" by blast
  have "estimate_cost_from_text_float yaml model input_text n (Finite x) =
     Inr \<lparr>fb_model = model, fb_input_tokens = t, fb_output_tokens = n, fb_cached_tokens = c,
          fb_estimated_cost = cost, fb_is_estimated = contains ''pro'' (lower model)\<rparr>"
    unfolding estimate_cost_from_text_float_def Let_def t_def [symmetric] fi sum.case
      fmul.simps p(1) ic ec
    using assms(4,5) by simp
  then show ?thesis unfolding t_def c_def by blast
qed

lemma rd_6_10: "round_double 0.6 = Finite (5404319552844595 / 2 ^ 53)"
  using round_double_normal [of "- 1" "6 / 10" 5404319552844595]
  by (simp add: power_int_minus round_half_even_def Let_def)

lemma rd_58_100: "round_double 0.58 = Finite (5224175567749775 / 2 ^ 53)"
  using round_double_normal [of "- 1" "58 / 100" 5224175567749775]
  by (simp add: power_int_minus round_half_even_def Let_def)

lemma rd_3_2: "round_double 1.5 = Finite (3 / 2)"
  using round_double_normal [of 0 "3 / 2" 6755399441055744]
  by (simp add: power_int_minus round_half_even_def Let_def)

lemma rd_neg_1_10: "round_double (- 0.1) = Finite (- (3602879701896397 / 2 ^ 55))"
  using round_double_normal [of "- 4" "- (1 / 10)" "- 7205759403792794"]
  by (simp add: power_int_minus round_half_even_def Let_def)

lemma share_5_06: "nearest_double (5 * (5404319552844595 / 2 ^ 53)) = 3"
proof -
  have "round_double (5 * (5404319552844595 / 2 ^ 53)) = Finite 3"
    using round_double_normal [of 1 "5 * (5404319552844595 / 2 ^ 53)" 6755399441055744]
    by (simp add: power_int_minus round_half_even_def Let_def)
  then show ?thesis by (rule round_double_FiniteD)
qed

lemma share_50_058:
  "nearest_double (50 * (5224175567749775 / 2 ^ 53)) = 8162774324609023 / 2 ^ 48"
proof -
  have "round_double (50 * (5224175567749775 / 2 ^ 53)) = Finite (8162774324609023 / 2 ^ 48)"
    using round_double_normal [of 4 "50 * (5224175567749775 / 2 ^ 53)" 8162774324609023]
    by (simp add: power_int_minus round_half_even_def Let_def)
  then show ?thesis by (rule round_double_FiniteD)
qed

lemma share_5_half: "nearest_double (5 * (1 / 2)) = 5 / 2"
proof -
  have "round_double (5 * (1 / 2)) = Finite (5 / 2)"
    using round_double_normal [of 1 "5 * (1 / 2)" 5629499534213120]
    by (simp add: power_int_minus round_half_even_def Let_def)
  then show ?thesis by (rule round_double_FiniteD)
qed

lemma tokens_20: "estimate_tokens ''aaaaaaaaaaaaaaaaaaaa'' = 5"
  by (simp add: estimate_tokens_def CHARS_PER_TOKEN_def)

lemma tokens_200: "estimate_tokens (replicate 200 CHR ''a'') = 50"
  by (simp add: estimate_tokens_def CHARS_PER_TOKEN_def)

text \<open>
  Claim C8, as stated, fails in its last part: \<open>cached_tokens\<close> is the integer part of
  the float product, which is rounded before it is truncated. For a text of 5 tokens and
  the ratio \<open>0.6\<close>, which is the double \<open>5404319552844595 / 2 ^ 53\<close>, the exact product is
  below 3 and its floor is 2; the float product is \<open>3.0\<close> and \<open>cached_tokens\<close> is 3. For a
  text of 50 tokens and the ratio \<open>0.58\<close>, the floor of \<open>50 * 0.58\<close> is 29; the double
  nearest to \<open>0.58\<close> is below it, the float product is \<open>28.999999999999996\<close> and
  \<open>cached_tokens\<close> is 28.
\<close>

theorem cached_tokens_not_floor:
  "(\<exists>cost. estimate_cost_from_text_float Absent ''gpt-5.2'' ''aaaaaaaaaaaaaaaaaaaa'' 0
              (round_double 0.6) =
       Inr \<lparr>fb_model = ''gpt-5.2'', fb_input_tokens = 5, fb_output_tokens = 0,
            fb_cached_tokens = 3, fb_estimated_cost = cost, fb_is_estimated = False\<rparr>)
   \<and> round_double 0.6 = Finite (5404319552844595 / 2 ^ 53)
   \<and> \<lfloor>5 * (5404319552844595 / 2 ^ 53 :: real)\<rfloor> = 2
   \<and> (\<exists>cost. estimate_cost_from_text_float Absent ''gpt-5.2'' (replicate 200 CHR ''a'') 0
              (round_double 0.58) =
       Inr \<lparr>fb_model = ''gpt-5.2'', fb_input_tokens = 50, fb_output_tokens = 0,
            fb_cached_tokens = 28, fb_estimated_cost = cost, fb_is_estimated = False\<rparr>)
   \<and> \<lfloor>50 * (0.58 :: real)\<rfloor> = 29"
proof -
  have a: "(0::real) \<le> 5404319552844595 / 2 ^ 53" "(5404319552844595 / 2 ^ 53 :: real) \<le> 1"
    "estimate_tokens ''aaaaaaaaaaaaaaaaaaaa'' < 2 ^ 53" "\<bar>0 :: int\<bar> \<le> 2 ^ 1023"
    by (simp_all add: tokens_20)
  have b: "(0::real) \<le> 5224175567749775 / 2 ^ 53" "(5224175567749775 / 2 ^ 53 :: real) \<le> 1"
    "estimate_tokens (replicate 200 CHR ''a'') < 2 ^ 53"
    by (simp_all add: tokens_200)
  have f: "\<lfloor>3 :: real\<rfloor> = 3" "\<lfloor>8162774324609023 / 2 ^ 48 :: real\<rfloor> = 28"
    "\<lfloor>5 * (5404319552844595 / 2 ^ 53 :: real)\<rfloor> = 2" "\<lfloor>50 * (0.58 :: real)\<rfloor> = 29"
    by simp_all
  have 1: "\<exists>cost. estimate_cost_from_text_float Absent ''gpt-5.2'' ''aaaaaaaaaaaaaaaaaaaa'' 0
              (round_double 0.6) =
       Inr \<lparr>fb_model = ''gpt-5.2'', fb_input_tokens = 5, fb_output_tokens = 0,
            fb_cached_tokens = 3, fb_estimated_cost = cost, fb_is_estimated = False\<rparr>"
    using estimate_cost_from_text_float_valid [OF norm_gpt52 price_gpt52 price_nonempty a,
        unfolded tokens_20 of_int_numeral share_5_06 f(1)]
      pro_not_in_gpt52
    unfolding rd_6_10 by simp
  have 2: "\<exists>cost. estimate_cost_from_text_float Absent ''gpt-5.2'' (replicate 200 CHR ''a'') 0
              (round_double 0.58) =
       Inr \<lparr>fb_model = ''gpt-5.2'', fb_input_tokens = 50, fb_output_tokens = 0,
            fb_cached_tokens = 28, fb_estimated_cost = cost, fb_is_estimated = False\<rparr>"
    using estimate_cost_from_text_float_valid [OF norm_gpt52 price_gpt52 price_nonempty b a(4),
        unfolded tokens_200 of_int_numeral share_50_058 f(2)]
      pro_not_in_gpt52
    unfolding rd_58_100 by simp
  show ?thesis using 1 2 f(3,4) rd_6_10 by blast
qed

text \<open>
  Claim C8, amended. \<open>estimate_cost_from_text\<close> fails with the invalid-ratio error for
  every \<open>cached_ratio\<close> of which \<open>0.0 <= cached_ratio <= 1.0\<close> is false: every float below 0
  or above 1, the infinities and NaN; and this before the model is looked at. For a ratio
  \<open>x\<close> inside \<open>[0, 1]\<close>, a model whose name resolves and whose price entry is found and not
  empty, with rates of magnitude at most \<open>2 ^ 1023\<close>, a text of fewer than \<open>2 ^ 53\<close> tokens
  and \<open>\<bar>expected_output_tokens\<bar> \<le> 2 ^ 1023\<close> it returns a breakdown. Its \<open>cached_tokens\<close>
  is the floor of the float product \<open>input_tokens * x\<close>, the double nearest to the exact
  product; that is \<open>floor(input_tokens * x)\<close> or one more, and it lies in
  \<open>[0, input_tokens]\<close>.
\<close>

theorem cached_ratio_validation_float:
  "(\<not> (fle (Finite 0) cached_ratio \<and> fle cached_ratio (Finite 1)) \<longrightarrow>
      estimate_cost_from_text_float yaml model input_text n cached_ratio = Inl InvalidCachedRatio)
   \<and> (cached_ratio = Finite x \<and> 0 \<le> x \<and> x \<le> 1
        \<and> normalize_model_name model = Inr (provider, api_model)
        \<and> get_model_pricing yaml provider api_model = Some pricing \<and> pricing \<noteq> []
        \<and> \<bar>get_or (map_of pricing) ''input'' 0\<bar> \<le> 2 ^ 1023
        \<and> \<bar>get_or (map_of pricing) ''output'' 0\<bar> \<le> 2 ^ 1023
        \<and> estimate_tokens input_text < 2 ^ 53 \<and> \<bar>n\<bar> \<le> 2 ^ 1023 \<longrightarrow>
      (\<exists>cost. estimate_cost_from_text_float yaml model input_text n cached_ratio =
         Inr \<lparr>fb_model = model,
              fb_input_tokens = estimate_tokens input_text,
              fb_output_tokens = n,
              fb_cached_tokens = \<lfloor>nearest_double (real_of_int (estimate_tokens input_text) * x)\<rfloor>,
              fb_estimated_cost = cost,
              fb_is_estimated = contains ''pro'' (lower model)\<rparr>)
      \<and> fmul (Finite (real_of_int (estimate_tokens input_text))) cached_ratio
          = Finite (nearest_double (real_of_int (estimate_tokens input_text) * x))
      \<and> \<lfloor>real_of_int (estimate_tokens input_text) * x\<rfloor>
          \<le> \<lfloor>nearest_double (real_of_int (estimate_tokens input_text) * x)\<rfloor>
      \<and> \<lfloor>nearest_double (real_of_int (estimate_tokens input_text) * x)\<rfloor>
          \<le> \<lfloor>real_of_int (estimate_tokens input_text) * x\<rfloor> + 1
      \<and> 0 \<le> \<lfloor>nearest_double (real_of_int (estimate_tokens input_text) * x)\<rfloor>
      \<and> \<lfloor>nearest_double (real_of_int (estimate_tokens input_text) * x)\<rfloor>
          \<le> estimate_tokens input_text)"
proof (intro conjI impI)
  assume "\<not> (fle (Finite 0) cached_ratio \<and> fle cached_ratio (Finite 1))"
  then show "estimate_cost_from_text_float yaml model input_text n cached_ratio
               = Inl InvalidCachedRatio"
    by (rule estimate_cost_from_text_float_invalid)
next
  assume h: "cached_ratio = Finite x \<and> 0 \<le> x \<and> x \<le> 1
        \<and> normalize_model_name model = Inr (provider, api_model)
        \<and> get_model_pricing yaml provider api_model = Some pricing \<and> pricing \<noteq> []
        \<and> \<bar>get_or (map_of pricing) ''input'' 0\<bar> \<le> 2 ^ 1023
        \<and> \<bar>get_or (map_of pricing) ''output'' 0\<bar> \<le> 2 ^ 1023
        \<and> estimate_tokens input_text < 2 ^ 53 \<and> \<bar>n\<bar> \<le> 2 ^ 1023"
  then have r: "cached_ratio = Finite x" and x: "0 \<le> x" "x \<le> 1"
    and m: "normalize_model_name model = Inr (provider, api_model)"
    and p: "get_model_pricing yaml provider api_model = Some pricing" "pricing \<noteq> []"
    and t: "estimate_tokens input_text < 2 ^ 53" and n: "\<bar>n\<bar> \<le> 2 ^ 1023"
    by simp_all
  note s = rounded_share [OF estimate_tokens_nonneg t x]
  show "\<exists>cost. estimate_cost_from_text_float yaml model input_text n cached_ratio =
         Inr \<lparr>fb_model = model,
              fb_input_tokens = estimate_tokens input_text,
              fb_output_tokens = n,
              fb_cached_tokens = \<lfloor>nearest_double (real_of_int (estimate_tokens input_text) * x)\<rfloor>,
              fb_estimated_cost = cost,
              fb_is_estimated = contains ''pro'' (lower model)\<rparr>"
    unfolding r by (rule estimate_cost_from_text_float_valid [OF m p x t n])
  show "fmul (Finite (real_of_int (estimate_tokens input_text))) cached_ratio
          = Finite (nearest_double (real_of_int (estimate_tokens input_text) * x))"
    unfolding r fmul.simps by (rule s(1))
  show "\<lfloor>real_of_int (estimate_tokens input_text) * x\<rfloor>
          \<le> \<lfloor>nearest_double (real_of_int (estimate_tokens input_text) * x)\<rfloor>"
    by (rule s(3))
  show "\<lfloor>nearest_double (real_of_int (estimate_tokens input_text) * x)\<rfloor>
          \<le> \<lfloor>real_of_int (estimate_tokens input_text) * x\<rfloor> + 1"
    by (rule s(4))
  show "0 \<le> \<lfloor>nearest_double (real_of_int (estimate_tokens input_text) * x)\<rfloor>"
    using s(2) by simp
  show "\<lfloor>nearest_double (real_of_int (estimate_tokens input_text) * x)\<rfloor>
          \<le> estimate_tokens input_text"
    by (rule s(5))
qed

theorem cached_ratio_validation_float_witness:
  "estimate_cost_from_text_float Absent ''gpt-5.2'' ''hello how are you today'' 1000
       (round_double 1.5) = Inl InvalidCachedRatio
   \<and> estimate_cost_from_text_float Absent ''gpt-5.2'' ''hello how are you today'' 1000
       (round_double (- 0.1)) = Inl InvalidCachedRatio
   \<and> estimate_cost_from_text_float Absent ''gpt-5.2'' ''hello how are you today'' 1000
       NaN = Inl InvalidCachedRatio
   \<and> (\<exists>cost. estimate_cost_from_text_float Absent ''gpt-5.2'' ''hello how are you today'' 1000
               (Finite (1 / 2)) =
         Inr \<lparr>fb_model = ''gpt-5.2'', fb_input_tokens = 5, fb_output_tokens = 1000,
              fb_cached_tokens = 2, fb_estimated_cost = cost, fb_is_estimated = False\<rparr>)"
proof -
  have 1: "estimate_cost_from_text_float Absent ''gpt-5.2'' ''hello how are you today'' 1000
       (round_double 1.5) = Inl InvalidCachedRatio"
    using cached_ratio_validation_float [where cached_ratio="round_double 1.5" and yaml=Absent
        and model="''gpt-5.2''" and input_text="''hello how are you today''" and n=1000]
    unfolding rd_3_2 by simp
  have 2: "estimate_cost_from_text_float Absent ''gpt-5.2'' ''hello how are you today'' 1000
       (round_double (- 0.1)) = Inl InvalidCachedRatio"
    using cached_ratio_validation_float [where cached_ratio="round_double (- 0.1)" and yaml=Absent
        and model="''gpt-5.2''" and input_text="''hello how are you today''" and n=1000]
    unfolding rd_neg_1_10 by simp
  have 3: "estimate_cost_from_text_float Absent ''gpt-5.2'' ''hello how are you today'' 1000
       NaN = Inl InvalidCachedRatio"
    using cached_ratio_validation_float [where cached_ratio=NaN and yaml=Absent
        and model="''gpt-5.2''" and input_text="''hello how are you today''" and n=1000]
    by simp
  have f: "\<lfloor>5 / 2 :: real\<rfloor> = 2" by simp
  have 4: "\<exists>cost. estimate_cost_from_text_float Absent ''gpt-5.2'' ''hello how are you today'' 1000
               (Finite (1 / 2)) =
         Inr \<lparr>fb_model = ''gpt-5.2'', fb_input_tokens = 5, fb_output_tokens = 1000,
              fb_cached_tokens = 2, fb_estimated_cost = cost, fb_is_estimated = False\<rparr>"
    using cached_ratio_validation_float [where cached_ratio="Finite (1 / 2)" and x="1 / 2"
        and yaml=Absent and model="''gpt-5.2''" and input_text="''hello how are you today''"
        and n=1000 and provider="''openai''" and api_model="''gpt-5.2''"
        and pricing="price 1.75 14.00"]
      norm_gpt52 price_gpt52 price_nonempty [of "1.75" "14.00"] pro_not_in_gpt52
    unfolding tokens_23 of_int_numeral share_5_half f by (simp add: price_rates)
  show ?thesis using 1 2 3 4 by blast
qed

end
